theory Spec2Isabelle
  imports Complex_Main "HOL-Library.Word" "HOL-Library.AList" "HOL-Library.Multiset"
begin

section \<open>neobench: result aggregation and output (pkg/neobench/output.go)\<close>

text \<open>
  Conventions of the embedding.
  \<^item> \<open>int64\<close> is \<open>64 word\<close>: \<open>+\<close> wraps as Go's does, \<open>sint\<close> reads the signed value.
  \<^item> \<open>float64\<close> is \<open>real\<close>: rounding, infinities and NaN are outside the model, so a
    sum or quotient of rates is the exact one.
  \<^item> A Go map is an association list with \<open>map_of\<close> for the lookup and \<open>AList.update\<close>
    for the store. Go iterates a map in an unspecified order; the order of the list stands
    for the order one run happens to take, and the theorems hold for every list.
  \<^item> A \<open>*hdrhistogram.Histogram\<close> is an address into a heap of histograms, \<open>None\<close> for
    \<open>nil\<close>. The heap is a list, an address is an index, allocation appends.
  \<^item> The histogram library, the \<open>fmt\<close> verbs and the \<open>io.Writer\<close>s are not part of the
    package: they are parameters (\<open>hdr\<close>, \<open>lib\<close>).
  \<^item> A \<open>*ScriptResult\<close> in a map is held there by value: \<open>Add\<close> reaches the entries of
    its \<open>Result\<close> through the map only, and makes every one of them itself.
  \<^item> A panic is \<open>Inl\<close> of the result: a \<open>nil\<close> histogram, a failed write, a second
    registration.
\<close>

subsection \<open>Panics\<close>

datatype panic =
    NilDereference
  | WriteFailed
  | MultipleRegistrations string

subsection \<open>The histogram library (github.com/codahale/hdrhistogram)\<close>

type_synonym int64 = "64 word"
type_synonym float64 = real

text \<open>
  What the package calls on a histogram whose content is a value of \<open>'h\<close>:
  \<open>hdrCopy h\<close> is the content of \<open>hdrhistogram.Import(h.Export())\<close>,
  \<open>hdrMerge h from\<close> the content of \<open>h\<close> after \<open>h.Merge(from)\<close>.
\<close>

record 'h hdr =
  hdrCopy :: "'h \<Rightarrow> 'h"
  hdrMerge :: "'h \<Rightarrow> 'h \<Rightarrow> 'h"
  hdrTotalCount :: "'h \<Rightarrow> int64"
  hdrMean :: "'h \<Rightarrow> float64"
  hdrStdDev :: "'h \<Rightarrow> float64"
  hdrMin :: "'h \<Rightarrow> int64"
  hdrMax :: "'h \<Rightarrow> int64"
  hdrValueAtQuantile :: "'h \<Rightarrow> float64 \<Rightarrow> int64"

type_synonym 'h heap = "'h list"
type_synonym histogram_ptr = "nat option"

text \<open>Reading through a pointer: \<open>nil\<close> (and an address no allocation returned) has no content.\<close>

definition deref :: "'h heap \<Rightarrow> histogram_ptr \<Rightarrow> 'h option" where
  "deref hp p = (case p of None \<Rightarrow> None
                 | Some a \<Rightarrow> if a < length hp then Some (hp ! a) else None)"

subsection \<open>Data model\<close>

record ProgressReport =
  Section :: string
  Step :: string
  Completeness :: float64

text \<open>
  \<open>FailureGroup\<close> and \<open>WorkerResult\<close> are declared in another file of the package. Their
  fields are the ones \<open>Add\<close> and \<open>writeErrorReport\<close> read; \<open>FirstFailure\<close> is held as the
  text that \<open>%s\<close> prints for it.
\<close>

record FailureGroup =
  Count :: int64
  FirstFailure :: string

record ScriptResult =
  ScriptName :: string
  Rate :: float64
  Failed :: int64
  Succeeded :: int64
  Latencies :: histogram_ptr

record Result =
  DatabaseName :: string
  Scenario :: string
  FailedByErrorGroup :: "(string \<times> FailureGroup) list"
  Scripts :: "(string \<times> ScriptResult) list"

record WorkerResult =
  wScripts :: "(string \<times> ScriptResult) list"
  wFailedByErrorGroup :: "(string \<times> FailureGroup) list"

definition NewResult :: "string \<Rightarrow> string \<Rightarrow> Result" where
  "NewResult databaseName scenario =
     \<lparr>DatabaseName = databaseName, Scenario = scenario,
      FailedByErrorGroup = [], Scripts = []\<rparr>"

definition TotalSucceeded :: "Result \<Rightarrow> int64" where
  "TotalSucceeded r = foldl (\<lambda>n s. n + Succeeded (snd s)) 0 (Scripts r)"

definition TotalFailed :: "Result \<Rightarrow> int64" where
  "TotalFailed r = foldl (\<lambda>n s. n + Failed (snd s)) 0 (Scripts r)"

definition TotalRate :: "Result \<Rightarrow> float64" where
  "TotalRate r = foldl (\<lambda>n s. n + Rate (snd s)) 0 (Scripts r)"

subsection \<open>Result.Add\<close>

text \<open>
  The two library calls of \<open>Add\<close>, on the heap. \<open>Import(q.Export())\<close> allocates a
  histogram with the copied content and returns its address; \<open>p.Merge(q)\<close> changes the
  histogram at \<open>p\<close> where it is. Either panics on \<open>nil\<close>.
\<close>

definition Import_Export :: "'h hdr \<Rightarrow> 'h heap \<Rightarrow> histogram_ptr \<Rightarrow> panic + 'h heap \<times> histogram_ptr" where
  "Import_Export hdr hp q =
     (case deref hp q of
        None \<Rightarrow> Inl NilDereference
      | Some h \<Rightarrow> Inr (hp @ [hdrCopy hdr h], Some (length hp)))"

definition Merge :: "'h hdr \<Rightarrow> 'h heap \<Rightarrow> histogram_ptr \<Rightarrow> histogram_ptr \<Rightarrow> panic + 'h heap" where
  "Merge hdr hp p q =
     (case p of
        None \<Rightarrow> Inl NilDereference
      | Some a \<Rightarrow>
          (case deref hp p of
             None \<Rightarrow> Inl NilDereference
           | Some h \<Rightarrow>
               (case deref hp q of
                  None \<Rightarrow> Inl NilDereference
                | Some from \<Rightarrow> Inr (hp[a := hdrMerge hdr h from]))))"

text \<open>
  One round of the first loop of \<open>Add\<close>, for the entry \<open>w\<close> of \<open>res.Scripts\<close>: the state
  is the heap and \<open>r.Scripts\<close>. The entry found is changed where it is, which for the map
  is a store under the same key.
\<close>

definition addScript ::
  "'h hdr \<Rightarrow> ScriptResult \<Rightarrow> 'h heap \<times> (string \<times> ScriptResult) list
     \<Rightarrow> panic + 'h heap \<times> (string \<times> ScriptResult) list" where
  "addScript hdr w st =
     (case st of (hp, scripts) \<Rightarrow>
       (case map_of scripts (ScriptName w) of
          None \<Rightarrow>
            (case Import_Export hdr hp (Latencies w) of
               Inl e \<Rightarrow> Inl e
             | Inr (hp', p) \<Rightarrow>
                 Inr (hp',
                      AList.update (ScriptName w)
                        \<lparr>ScriptName = ScriptName w, Rate = Rate w, Failed = Failed w,
                         Succeeded = Succeeded w, Latencies = p\<rparr> scripts))
        | Some c \<Rightarrow>
            (let c' = c\<lparr>Rate := Rate c + Rate w,
                       Succeeded := Succeeded c + Succeeded w,
                       Failed := Failed c + Failed w\<rparr>
             in case Merge hdr hp (Latencies c') (Latencies w) of
                  Inl e \<Rightarrow> Inl e
                | Inr hp' \<Rightarrow> Inr (hp', AList.update (ScriptName w) c' scripts))))"

fun addScripts ::
  "'h hdr \<Rightarrow> (string \<times> ScriptResult) list \<Rightarrow> 'h heap \<times> (string \<times> ScriptResult) list
     \<Rightarrow> panic + 'h heap \<times> (string \<times> ScriptResult) list" where
  "addScripts hdr [] st = Inr st"
| "addScripts hdr (kw # ws) st =
     (case addScript hdr (snd kw) st of
        Inl p \<Rightarrow> Inl p
      | Inr st' \<Rightarrow> addScripts hdr ws st')"

text \<open>One round of the second loop, for an entry \<open>(name, grp)\<close> of \<open>res.FailedByErrorGroup\<close>.\<close>

definition addGroup ::
  "string \<times> FailureGroup \<Rightarrow> (string \<times> FailureGroup) list \<Rightarrow> (string \<times> FailureGroup) list" where
  "addGroup ng groups =
     (case ng of (name, grp) \<Rightarrow>
       (case map_of groups name of
          Some existing \<Rightarrow>
            AList.update name
              \<lparr>Count = Count existing + Count grp, FirstFailure = FirstFailure existing\<rparr> groups
        | None \<Rightarrow> AList.update name grp groups))"

definition Add :: "'h hdr \<Rightarrow> WorkerResult \<Rightarrow> 'h heap \<times> Result \<Rightarrow> panic + 'h heap \<times> Result" where
  "Add hdr res st =
     (case st of (hp, r) \<Rightarrow>
       (case addScripts hdr (wScripts res) (hp, Scripts r) of
          Inl p \<Rightarrow> Inl p
        | Inr (hp', scripts') \<Rightarrow>
            Inr (hp', r\<lparr>Scripts := scripts',
                       FailedByErrorGroup :=
                         foldl (\<lambda>g ng. addGroup ng g) (FailedByErrorGroup r)
                           (wFailedByErrorGroup res)\<rparr>)))"

text \<open>A sequence of \<open>Add\<close> calls, in the order of the list; a panic ends it.\<close>

fun AddAll :: "'h hdr \<Rightarrow> WorkerResult list \<Rightarrow> 'h heap \<times> Result \<Rightarrow> panic + 'h heap \<times> Result" where
  "AddAll hdr [] st = Inr st"
| "AddAll hdr (res # rest) st =
     (case Add hdr res st of
        Inl p \<Rightarrow> Inl p
      | Inr st' \<Rightarrow> AddAll hdr rest st')"

subsection \<open>Live pointers\<close>

text \<open>
  The histogram pointers of a list of entries are live in a heap when each of them points
  to a histogram of it: none is \<open>nil\<close>. The workers and \<open>Add\<close> only make such entries.
\<close>

definition live :: "'h heap \<Rightarrow> (string \<times> ScriptResult) list \<Rightarrow> bool" where
  "live hp entries = list_all (\<lambda>ke. deref hp (Latencies (snd ke)) \<noteq> None) entries"

subsection \<open>A histogram instance for evaluation\<close>

text \<open>
  The theorems below hold for every histogram library \<open>hdr\<close>. Where one is evaluated at a
  concrete input, the histogram is the list of its samples: a copy is the same list, a
  merge appends, the count is the length, the mean is the mean of the samples. This
  instance does not compute a standard deviation or a quantile: it returns 0 for the
  one and the largest sample for the other.
\<close>

definition listHdr :: "int list hdr" where
  "listHdr =
     \<lparr>hdrCopy = (\<lambda>h. h),
      hdrMerge = (\<lambda>h from. h @ from),
      hdrTotalCount = (\<lambda>h. of_nat (length h)),
      hdrMean = (\<lambda>h. if h = [] then 0 else real_of_int (sum_list h) / real (length h)),
      hdrStdDev = (\<lambda>h. 0),
      hdrMin = (\<lambda>h. if h = [] then 0 else of_int (Min (set h))),
      hdrMax = (\<lambda>h. if h = [] then 0 else of_int (Max (set h))),
      hdrValueAtQuantile = (\<lambda>h q. if h = [] then 0 else of_int (Max (set h)))\<rparr>"

section \<open>Output\<close>

subsection \<open>Formatting and writing (fmt, io, time)\<close>

text \<open>A value passed as \<open>interface{}\<close>, as far as this package passes any.\<close>

datatype gval =
    VInt64 int64
  | VFloat64 float64
  | VString string
  | VSlice "gval list"

text \<open>
  The writes done so far, oldest first: the writer and the text. Whether a writer takes
  a write is the library's and the system's business: \<open>accepts\<close>, given the writes
  before. The verbs of \<open>fmt\<close> on numbers are parameters too; \<open>%.3f\<close> and \<open>%.03f\<close> print the
  same (the flag \<open>0\<close> pads to a width, and there is none).
\<close>

type_synonym 'w world = "('w \<times> string) list"

record 'w lib =
  accepts :: "'w world \<Rightarrow> 'w \<Rightarrow> string \<Rightarrow> bool"
  fmt_d :: "int64 \<Rightarrow> string"
  fmt_f2 :: "float64 \<Rightarrow> string"
  fmt_f3 :: "float64 \<Rightarrow> string"
  fmt_v :: "gval \<Rightarrow> string"

text \<open>\<open>_, err := fmt.Fprint(w, s); if err != nil { panic(err) }\<close>\<close>

definition Fprint :: "'w lib \<Rightarrow> 'w \<Rightarrow> string \<Rightarrow> 'w world \<Rightarrow> panic + 'w world" where
  "Fprint lib w s tr = (if accepts lib tr w s then Inr (tr @ [(w, s)]) else Inl WriteFailed)"

text \<open>\<open>strings.Join\<close>\<close>

fun Join :: "string list \<Rightarrow> string \<Rightarrow> string" where
  "Join [] sep = []"
| "Join [x] sep = x"
| "Join (x # y # ys) sep = x @ sep @ Join (y # ys) sep"

text \<open>
  An instant is a number of nanoseconds on a line whose origin is the zero \<open>time.Time\<close>.
  \<open>t.Sub(u)\<close> is a \<open>Duration\<close>, an \<open>int64\<close> of nanoseconds: the difference, or the largest
  or smallest \<open>Duration\<close> when the difference is out of range. \<open>d.Seconds()\<close> is the
  duration in seconds.
\<close>

type_synonym time = int

definition Sub :: "time \<Rightarrow> time \<Rightarrow> int" where
  "Sub t u =
     (let d = t - u in
      if d < - (2 ^ 63) then - (2 ^ 63) else if 2 ^ 63 - 1 < d then 2 ^ 63 - 1 else d)"

definition Seconds :: "int \<Rightarrow> float64" where
  "Seconds d = real_of_int d / 1000000000"

subsection \<open>InteractiveOutput\<close>

record 'w InteractiveOutput =
  ErrStream :: 'w
  OutStream :: 'w
  LastProgressReport :: ProgressReport
  LastProgressTime :: time

text \<open>\<open>now\<close> is what \<open>time.Now()\<close> returns in the call.\<close>

definition InteractiveOutput_ReportInitProgress ::
  "'w lib \<Rightarrow> time \<Rightarrow> ProgressReport \<Rightarrow> 'w InteractiveOutput \<times> 'w world
     \<Rightarrow> panic + 'w InteractiveOutput \<times> 'w world" where
  "InteractiveOutput_ReportInitProgress lib now report st =
     (case st of (this, tr) \<Rightarrow>
       if Section report = Section (LastProgressReport this) \<and>
          Step report = Step (LastProgressReport this) \<and>
          Seconds (Sub now (LastProgressTime this)) < 10
       then Inr (this, tr)
       else
         (let this' = this\<lparr>LastProgressReport := report, LastProgressTime := now\<rparr> in
          case Fprint lib (ErrStream this')
                 (''['' @ Section report @ ''][''  @ Step report @ ''] '' @
                  fmt_f2 lib (Completeness report * 100) @ ''%\<newline>'') tr of
            Inl p \<Rightarrow> Inl p
          | Inr tr' \<Rightarrow> Inr (this', tr')))"

text \<open>
  \<open>summarizeLatency\<close>: the lines, each after the indent, appended to the builder \<open>s\<close>.
\<close>

definition summarizeLatency ::
  "'w lib \<Rightarrow> 'h hdr \<Rightarrow> 'h heap \<Rightarrow> ScriptResult \<Rightarrow> string \<Rightarrow> string \<Rightarrow> panic + string" where
  "summarizeLatency lib hdr hp script s indent =
     (case deref hp (Latencies script) of
        None \<Rightarrow> Inl NilDereference
      | Some histo \<Rightarrow>
          (let ms = (\<lambda>v. real_of_int (sint v) / 1000);
               lines =
                 [fmt_d lib (Succeeded script) @ '' successful transactions, '' @
                    fmt_d lib (Failed script) @ '' failed. (Total of '' @
                    fmt_f3 lib (Rate script) @ '' per second)\<newline>'',
                  ''Max: '' @ fmt_f3 lib (ms (hdrMax hdr histo)) @
                    ''ms, Min: '' @ fmt_f3 lib (ms (hdrMin hdr histo)) @
                    ''ms, Mean: '' @ fmt_f3 lib (hdrMean hdr histo / 1000) @
                    ''ms, Stddev: '' @ fmt_f3 lib (hdrStdDev hdr histo / 1000) @
                    ''\<newline>\<newline>'',
                  ''Latency distribution:\<newline>'',
                  ''  P00.000: '' @ fmt_f3 lib (ms (hdrMin hdr histo)) @ ''ms\<newline>'',
                  ''  P25.000: '' @ fmt_f3 lib (ms (hdrValueAtQuantile hdr histo 25)) @ ''ms\<newline>'',
                  ''  P50.000: '' @ fmt_f3 lib (ms (hdrValueAtQuantile hdr histo 50)) @ ''ms\<newline>'',
                  ''  P75.000: '' @ fmt_f3 lib (ms (hdrValueAtQuantile hdr histo 75)) @ ''ms\<newline>'',
                  ''  P95.000: '' @ fmt_f3 lib (ms (hdrValueAtQuantile hdr histo 95)) @ ''ms\<newline>'',
                  ''  P99.000: '' @ fmt_f3 lib (ms (hdrValueAtQuantile hdr histo 99)) @ ''ms\<newline>'',
                  ''  P99.999: '' @ fmt_f3 lib (ms (hdrValueAtQuantile hdr histo 99.999)) @ ''ms\<newline>'']
           in Inr (foldl (\<lambda>s line. s @ indent @ line) s lines)))"

text \<open>
  \<open>writeErrorReport\<close>: \<open>writeErrorReport_strings\<close> are the arguments of its \<open>WriteString\<close>
  calls, in order; the builder \<open>s\<close> receives them one after the other. Where failed and
  succeeded add up to 0, Go divides by zero and prints an infinity or NaN; the quotient
  of the model is not that value, and no theorem reads it there.
\<close>

definition writeErrorReport_strings :: "'w lib \<Rightarrow> Result \<Rightarrow> string list" where
  "writeErrorReport_strings lib result =
     ''Error stats:\<newline>'' #
     (if TotalFailed result = 0 then [''  No errors!\<newline>'']
      else
        [''  Failed transactions: '' @ fmt_d lib (TotalFailed result) @ '' ('' @
           fmt_f3 lib (100 * real_of_int (sint (TotalFailed result)) /
                       real_of_int (sint (TotalFailed result + TotalSucceeded result))) @
           '' %)\<newline>'',
         ''\<newline>'',
         ''  Causes:\<newline>''] @
        concat (map (\<lambda>ni.
             [''    '' @ fst ni @ '': '' @ fmt_d lib (Count (snd ni)) @ '' failures\<newline>'',
              ''      (ex: '' @ FirstFailure (snd ni) @ '')\<newline>''])
          (FailedByErrorGroup result)))"

definition writeErrorReport :: "'w lib \<Rightarrow> Result \<Rightarrow> string \<Rightarrow> string" where
  "writeErrorReport lib result s = foldl (@) s (writeErrorReport_strings lib result)"

subsection \<open>CsvOutput\<close>

record 'w CsvOutput =
  csvErrStream :: 'w
  csvOutStream :: 'w
  csvLastProgressReport :: ProgressReport
  csvLastProgressTime :: time

definition fmtFloat :: "'w lib \<Rightarrow> gval \<Rightarrow> string" where
  "fmtFloat lib v =
     (case v of
        VInt64 i \<Rightarrow> fmt_f3 lib (real_of_int (sint i))
      | VFloat64 f \<Rightarrow> fmt_f3 lib f
      | _ \<Rightarrow> fmt_v lib v @ ''?'')"

text \<open>
  The table of columns reads the library and the heap, as all code does; here they are its
  parameters. A column's \<open>value\<close> that reads the histogram of the script panics on \<open>nil\<close>.
\<close>

definition ofLatencies ::
  "'h heap \<Rightarrow> ScriptResult \<Rightarrow> ('h \<Rightarrow> string) \<Rightarrow> panic + string" where
  "ofLatencies hp s f =
     (case deref hp (Latencies s) of None \<Rightarrow> Inl NilDereference | Some h \<Rightarrow> Inr (f h))"

definition csvColumns ::
  "'w lib \<Rightarrow> 'h hdr \<Rightarrow> 'h heap \<Rightarrow> (string \<times> (Result \<Rightarrow> ScriptResult \<Rightarrow> panic + string)) list" where
  \<open>csvColumns lib hdr hp =
     [(''db'', \<lambda>r s. Inr (''"'' @ DatabaseName r @ ''"'')),
      (''script'', \<lambda>r s. Inr (''"'' @ ScriptName s @ ''"'')),
      (''rate'', \<lambda>r s. Inr (fmtFloat lib (VFloat64 (Rate s)))),
      (''succeeded'', \<lambda>r s.
         ofLatencies hp s (\<lambda>h. fmtFloat lib (VInt64 (hdrTotalCount hdr h)))),
      (''failed'', \<lambda>r s. Inr (fmtFloat lib (VInt64 (Failed s)))),
      (''mean'', \<lambda>r s.
         ofLatencies hp s (\<lambda>h. fmtFloat lib (VFloat64 (hdrMean hdr h / 1000)))),
      (''stdev'', \<lambda>r s.
         ofLatencies hp s (\<lambda>h. fmtFloat lib (VFloat64 (hdrStdDev hdr h)))),
      (''p0'', \<lambda>r s.
         ofLatencies hp s (\<lambda>h. fmtFloat lib
           (VFloat64 (real_of_int (sint (hdrMin hdr h)) / 1000)))),
      (''p25'', \<lambda>r s.
         ofLatencies hp s (\<lambda>h. fmtFloat lib
           (VFloat64 (real_of_int (sint (hdrValueAtQuantile hdr h 25)) / 1000)))),
      (''p50'', \<lambda>r s.
         ofLatencies hp s (\<lambda>h. fmtFloat lib
           (VFloat64 (real_of_int (sint (hdrValueAtQuantile hdr h 50)) / 1000)))),
      (''p75'', \<lambda>r s.
         ofLatencies hp s (\<lambda>h. fmtFloat lib
           (VFloat64 (real_of_int (sint (hdrValueAtQuantile hdr h 75)) / 1000)))),
      (''p99'', \<lambda>r s.
         ofLatencies hp s (\<lambda>h. fmtFloat lib
           (VFloat64 (real_of_int (sint (hdrValueAtQuantile hdr h 99)) / 1000)))),
      (''p99999'', \<lambda>r s.
         ofLatencies hp s (\<lambda>h. fmtFloat lib
           (VFloat64 (real_of_int (sint (hdrValueAtQuantile hdr h 99.999)) / 1000)))),
      (''p100'', \<lambda>r s.
         ofLatencies hp s (\<lambda>h. fmtFloat lib
           (VFloat64 (real_of_int (sint (hdrMax hdr h)) / 1000))))]\<close>

definition CsvOutput_BenchmarkStart ::
  "'w lib \<Rightarrow> 'h hdr \<Rightarrow> 'h heap \<Rightarrow> string \<Rightarrow> string \<Rightarrow> string \<Rightarrow> 'w CsvOutput \<times> 'w world
     \<Rightarrow> panic + 'w CsvOutput \<times> 'w world" where
  "CsvOutput_BenchmarkStart lib hdr hp databaseName url scenario st =
     (case st of (this, tr) \<Rightarrow>
       (let databaseName = (if databaseName = [] then ''<default>'' else databaseName) in
        case Fprint lib (csvErrStream this)
               (''Starting workload on database '' @ databaseName @ '' against '' @ url @
                ''\<newline>'' @ ''Scenario: '' @ scenario @ ''\<newline>'') tr of
          Inl p \<Rightarrow> Inl p
        | Inr tr1 \<Rightarrow>
            (let columnNames =
                   foldl (\<lambda>names col. names @ [fst col]) [] (csvColumns lib hdr hp)
             in case Fprint lib (csvOutStream this) (Join columnNames '','' @ ''\<newline>'') tr1 of
                  Inl p \<Rightarrow> Inl p
                | Inr tr2 \<Rightarrow> Inr (this, tr2))))"

text \<open>
  The inner loop of \<open>writeLatencyRow\<close>: the columns from index \<open>i\<close> on, for one script,
  appended to the builder \<open>s\<close>. The outer loop: one line for every script.
\<close>

fun writeColumns ::
  "Result \<Rightarrow> ScriptResult \<Rightarrow> nat
     \<Rightarrow> (string \<times> (Result \<Rightarrow> ScriptResult \<Rightarrow> panic + string)) list
     \<Rightarrow> string \<Rightarrow> panic + string" where
  "writeColumns result script i [] s = Inr s"
| "writeColumns result script i (col # cols) s =
     (let s1 = (if i \<noteq> 0 then s @ '','' else s) in
      case snd col result script of
        Inl p \<Rightarrow> Inl p
      | Inr v \<Rightarrow> writeColumns result script (Suc i) cols (s1 @ v))"

fun writeRows ::
  "'w lib \<Rightarrow> 'h hdr \<Rightarrow> 'h heap \<Rightarrow> Result \<Rightarrow> (string \<times> ScriptResult) list \<Rightarrow> string
     \<Rightarrow> panic + string" where
  "writeRows lib hdr hp result [] s = Inr s"
| "writeRows lib hdr hp result (ks # rest) s =
     (case writeColumns result (snd ks) 0 (csvColumns lib hdr hp) s of
        Inl p \<Rightarrow> Inl p
      | Inr s1 \<Rightarrow> writeRows lib hdr hp result rest (s1 @ ''\<newline>''))"

definition CsvOutput_writeLatencyRow ::
  "'w lib \<Rightarrow> 'h hdr \<Rightarrow> 'h heap \<Rightarrow> Result \<Rightarrow> 'w CsvOutput \<times> 'w world
     \<Rightarrow> panic + 'w CsvOutput \<times> 'w world" where
  "CsvOutput_writeLatencyRow lib hdr hp result st =
     (case st of (this, tr) \<Rightarrow>
       (case writeRows lib hdr hp result (Scripts result) [] of
          Inl p \<Rightarrow> Inl p
        | Inr s \<Rightarrow>
            (case Fprint lib (csvOutStream this) s tr of
               Inl p \<Rightarrow> Inl p
             | Inr tr1 \<Rightarrow>
                 if 0 <s TotalFailed result then
                   (case Fprint lib (csvErrStream this) (writeErrorReport lib result []) tr1 of
                      Inl p \<Rightarrow> Inl p
                    | Inr tr2 \<Rightarrow> Inr (this, tr2))
                 else Inr (this, tr1))))"

definition CsvOutput_ReportLatency ::
  "'w lib \<Rightarrow> 'h hdr \<Rightarrow> 'h heap \<Rightarrow> Result \<Rightarrow> 'w CsvOutput \<times> 'w world
     \<Rightarrow> panic + 'w CsvOutput \<times> 'w world" where
  "CsvOutput_ReportLatency lib hdr hp result st = CsvOutput_writeLatencyRow lib hdr hp result st"

subsection \<open>CombinedOutput\<close>

text \<open>
  \<open>Output\<close> is an interface. An implementation is its six methods on a state \<open>'d\<close> of the
  delegate and a state \<open>'g\<close> that the delegates share (the streams, the registry).
\<close>

record ('d, 'g) Output =
  BenchmarkStart :: "string \<Rightarrow> string \<Rightarrow> string \<Rightarrow> 'd \<times> 'g \<Rightarrow> panic + 'd \<times> 'g"
  ReportInitProgress :: "ProgressReport \<Rightarrow> 'd \<times> 'g \<Rightarrow> panic + 'd \<times> 'g"
  ReportWorkloadProgress :: "float64 \<Rightarrow> Result \<Rightarrow> 'd \<times> 'g \<Rightarrow> panic + 'd \<times> 'g"
  ReportThroughput :: "Result \<Rightarrow> 'd \<times> 'g \<Rightarrow> panic + 'd \<times> 'g"
  ReportLatency :: "Result \<Rightarrow> 'd \<times> 'g \<Rightarrow> panic + 'd \<times> 'g"
  Errorf :: "string \<Rightarrow> gval list \<Rightarrow> 'd \<times> 'g \<Rightarrow> panic + 'd \<times> 'g"

record 'd CombinedOutput =
  delegates :: "'d list"

text \<open>\<open>for _, d := range c.delegates { call d }\<close>: a panic of a delegate ends the loop.\<close>

fun forDelegates ::
  "('d \<times> 'g \<Rightarrow> panic + 'd \<times> 'g) \<Rightarrow> 'd list \<Rightarrow> 'g \<Rightarrow> panic + 'd list \<times> 'g" where
  "forDelegates call [] g = Inr ([], g)"
| "forDelegates call (d # ds) g =
     (case call (d, g) of
        Inl p \<Rightarrow> Inl p
      | Inr (d', g') \<Rightarrow>
          (case forDelegates call ds g' of
             Inl p \<Rightarrow> Inl p
           | Inr (ds', g'') \<Rightarrow> Inr (d' # ds', g'')))"

definition forCombined ::
  "('d \<times> 'g \<Rightarrow> panic + 'd \<times> 'g) \<Rightarrow> 'd CombinedOutput \<times> 'g \<Rightarrow> panic + 'd CombinedOutput \<times> 'g" where
  "forCombined call st =
     (case st of (c, g) \<Rightarrow>
       (case forDelegates call (delegates c) g of
          Inl p \<Rightarrow> Inl p
        | Inr (ds, g') \<Rightarrow> Inr (c\<lparr>delegates := ds\<rparr>, g')))"

definition CombinedOutput_BenchmarkStart ::
  "('d, 'g) Output \<Rightarrow> string \<Rightarrow> string \<Rightarrow> string \<Rightarrow> 'd CombinedOutput \<times> 'g
     \<Rightarrow> panic + 'd CombinedOutput \<times> 'g" where
  "CombinedOutput_BenchmarkStart impl databaseName url scenario =
     forCombined (BenchmarkStart impl databaseName url scenario)"

definition CombinedOutput_ReportInitProgress ::
  "('d, 'g) Output \<Rightarrow> ProgressReport \<Rightarrow> 'd CombinedOutput \<times> 'g
     \<Rightarrow> panic + 'd CombinedOutput \<times> 'g" where
  "CombinedOutput_ReportInitProgress impl report = forCombined (ReportInitProgress impl report)"

definition CombinedOutput_ReportWorkloadProgress ::
  "('d, 'g) Output \<Rightarrow> float64 \<Rightarrow> Result \<Rightarrow> 'd CombinedOutput \<times> 'g
     \<Rightarrow> panic + 'd CombinedOutput \<times> 'g" where
  "CombinedOutput_ReportWorkloadProgress impl completeness checkpoint =
     forCombined (ReportWorkloadProgress impl completeness checkpoint)"

definition CombinedOutput_ReportThroughput ::
  "('d, 'g) Output \<Rightarrow> Result \<Rightarrow> 'd CombinedOutput \<times> 'g \<Rightarrow> panic + 'd CombinedOutput \<times> 'g" where
  "CombinedOutput_ReportThroughput impl result = forCombined (ReportThroughput impl result)"

definition CombinedOutput_ReportLatency ::
  "('d, 'g) Output \<Rightarrow> Result \<Rightarrow> 'd CombinedOutput \<times> 'g \<Rightarrow> panic + 'd CombinedOutput \<times> 'g" where
  "CombinedOutput_ReportLatency impl result = forCombined (ReportLatency impl result)"

text \<open>
  \<open>d.Errorf(format, a)\<close>: the slice \<open>a\<close> is passed as it is, not spread (\<open>a...\<close>), so it
  is the one variadic argument of the delegate's call.
\<close>

definition CombinedOutput_Errorf ::
  "('d, 'g) Output \<Rightarrow> string \<Rightarrow> gval list \<Rightarrow> 'd CombinedOutput \<times> 'g
     \<Rightarrow> panic + 'd CombinedOutput \<times> 'g" where
  "CombinedOutput_Errorf impl format a = forCombined (Errorf impl format [VSlice a])"

text \<open>
  A delegate that records its calls: its state is its name, the shared state the calls
  received so far, by whom, oldest first.
\<close>

datatype call =
    CallBenchmarkStart string string string
  | CallReportInitProgress ProgressReport
  | CallReportWorkloadProgress float64 Result
  | CallReportThroughput Result
  | CallReportLatency Result
  | CallErrorf string "gval list"

definition received :: "call \<Rightarrow> 'd \<times> ('d \<times> call) list \<Rightarrow> panic + 'd \<times> ('d \<times> call) list" where
  "received c st = (case st of (d, calls) \<Rightarrow> Inr (d, calls @ [(d, c)]))"

definition recorder :: "('d, ('d \<times> call) list) Output" where
  "recorder =
     \<lparr>BenchmarkStart = (\<lambda>databaseName url scenario.
        received (CallBenchmarkStart databaseName url scenario)),
      ReportInitProgress = (\<lambda>report. received (CallReportInitProgress report)),
      ReportWorkloadProgress = (\<lambda>completeness checkpoint.
        received (CallReportWorkloadProgress completeness checkpoint)),
      ReportThroughput = (\<lambda>result. received (CallReportThroughput result)),
      ReportLatency = (\<lambda>result. received (CallReportLatency result)),
      Errorf = (\<lambda>format a. received (CallErrorf format a))\<rparr>"

subsection \<open>InitOutput\<close>

unbundle bit_operations_syntax

text \<open>
  What \<open>InitOutput\<close> reads and changes outside the package: what \<open>os.Stdout.Stat()\<close>
  returns (the mode, \<open>None\<close> when it returns no \<open>FileInfo\<close>), the patterns registered with
  \<open>http.Handle\<close>, the metrics registered with the default registry, and the addresses for
  which a goroutine serving them was started. \<open>http.Handle\<close> and \<open>promauto.NewCounter\<close>
  panic on a second registration of the same name. What the goroutine does is outside
  the model.
\<close>

datatype os_file = Stdout | Stderr

record process =
  stdoutMode :: "32 word option"
  handlers :: "string list"
  collectors :: "string list"
  serving :: "string list"

definition ModeCharDevice :: "32 word" where
  "ModeCharDevice = push_bit 21 1"

definition InitPrometheus :: "string \<Rightarrow> process \<Rightarrow> panic + process" where
  "InitPrometheus addr p =
     (if ''/metrics'' \<in> set (handlers p) then Inl (MultipleRegistrations ''/metrics'')
      else Inr (p\<lparr>handlers := handlers p @ [''/metrics''], serving := serving p @ [addr]\<rparr>))"

record PrometheusOutput =
  totalSucceededCounter :: string
  totalFailedCounter :: string

definition NewCounter :: "string \<Rightarrow> process \<Rightarrow> panic + string \<times> process" where
  "NewCounter name p =
     (if name \<in> set (collectors p) then Inl (MultipleRegistrations name)
      else Inr (name, p\<lparr>collectors := collectors p @ [name]\<rparr>))"

definition NewPrometheusOutput :: "process \<Rightarrow> panic + PrometheusOutput \<times> process" where
  "NewPrometheusOutput p =
     (case NewCounter ''neobench_successful_transactions_total'' p of
        Inl e \<Rightarrow> Inl e
      | Inr (succeeded, p1) \<Rightarrow>
          (case NewCounter ''neobench_failed_transactions_total'' p1 of
             Inl e \<Rightarrow> Inl e
           | Inr (failed, p2) \<Rightarrow>
               Inr (\<lparr>totalSucceededCounter = succeeded, totalFailedCounter = failed\<rparr>, p2)))"

text \<open>
  The values of the interface \<open>Output\<close> that \<open>InitOutput\<close> makes; a \<open>CombinedOutput\<close> is
  given by its delegates.
\<close>

datatype output_value =
    AnInteractiveOutput "os_file InteractiveOutput"
  | ACsvOutput "os_file CsvOutput"
  | APrometheusOutput PrometheusOutput
  | ACombinedOutput "output_value list"

text \<open>
  The result is the pair that Go returns: the \<open>Output\<close> (\<open>None\<close> for \<open>nil\<close>) and the error
  (\<open>None\<close> for \<open>nil\<close>, else its message), with the process as the call leaves it.
\<close>

definition InitOutput ::
  "string \<Rightarrow> string \<Rightarrow> process \<Rightarrow> panic + (output_value option \<times> string option) \<times> process" where
  "InitOutput name prometheusAddress p =
     (case (if name = ''auto'' then
              (case stdoutMode p of
                 None \<Rightarrow> Inl NilDereference
               | Some mode \<Rightarrow>
                   Inr (if mode AND ModeCharDevice = 0 then ''csv'' else ''interactive''))
            else Inr name) of
        Inl e \<Rightarrow> Inl e
      | Inr name \<Rightarrow>
          (case (if name = ''interactive'' then
                   Some (AnInteractiveOutput
                     \<lparr>ErrStream = Stderr, OutStream = Stdout,
                      LastProgressReport = \<lparr>Section = [], Step = [], Completeness = 0\<rparr>,
                      LastProgressTime = 0\<rparr>)
                 else if name = ''csv'' then
                   Some (ACsvOutput
                     \<lparr>csvErrStream = Stderr, csvOutStream = Stdout,
                      csvLastProgressReport = \<lparr>Section = [], Step = [], Completeness = 0\<rparr>,
                      csvLastProgressTime = 0\<rparr>)
                 else None) of
             None \<Rightarrow>
               Inr ((None,
                     Some (''unknown output format: '' @ name @
                           '', supported formats are 'auto', 'interactive' and 'csv'' @
                           [CHR 0x27])), p)
           | Some out \<Rightarrow>
               if prometheusAddress \<noteq> [] then
                 (case InitPrometheus prometheusAddress p of
                    Inl e \<Rightarrow> Inl e
                  | Inr p1 \<Rightarrow>
                      (case NewPrometheusOutput p1 of
                         Inl e \<Rightarrow> Inl e
                       | Inr (prom, p2) \<Rightarrow>
                           Inr ((Some (ACombinedOutput [out, APrometheusOutput prom]), None),
                                p2)))
               else Inr ((Some out, None), p)))"

subsection \<open>A library instance for evaluation\<close>

text \<open>
  Where a theorem is evaluated at a concrete input, every write is taken, and the numbers
  are printed in decimal: \<open>show_fixed k\<close> with \<open>k\<close> digits after the point, as \<open>%.kf\<close> prints
  the values used here.
\<close>

definition digit :: "nat \<Rightarrow> char" where
  "digit n = ''0123456789'' ! n"

function show_nat :: "nat \<Rightarrow> string" where
  "show_nat n = (if n < 10 then [digit n] else show_nat (n div 10) @ [digit (n mod 10)])"
  by pat_completeness auto
termination
  by (relation "measure id") auto

declare show_nat.simps [simp del]

definition show_int :: "int \<Rightarrow> string" where
  "show_int i = (if i < 0 then ''-'' else []) @ show_nat (nat \<bar>i\<bar>)"

definition show_fixed :: "nat \<Rightarrow> real \<Rightarrow> string" where
  "show_fixed k x =
     (let n = round (x * 10 ^ k); a = nat \<bar>n\<bar> in
      (if n < 0 then ''-'' else []) @ show_nat (a div 10 ^ k) @ ''.'' @
      map (\<lambda>i. digit (a div 10 ^ (k - 1 - i) mod 10)) [0..<k])"

definition demoLib :: "'w lib" where
  "demoLib =
     \<lparr>accepts = (\<lambda>tr w s. True),
      fmt_d = (\<lambda>i. show_int (sint i)),
      fmt_f2 = show_fixed 2,
      fmt_f3 = show_fixed 3,
      fmt_v = (\<lambda>v. ''?'')\<rparr>"

section \<open>Properties of the aggregation\<close>

subsection \<open>Pointers\<close>

lemma deref_Some_iff:
  "deref hp p = Some h \<longleftrightarrow> (\<exists>a. p = Some a \<and> a < length hp \<and> hp ! a = h)"
  by (auto simp: deref_def split: option.splits)

lemma deref_append_old: "deref hp p = Some h \<Longrightarrow> deref (hp @ xs) p = Some h"
  by (auto simp: deref_def nth_append split: option.splits if_splits)

lemma deref_append_new: "deref (hp @ [x]) (Some (length hp)) = Some x"
  by (simp add: deref_def)

lemma Import_Export_Some:
  "deref hp q = Some h \<Longrightarrow>
     Import_Export hdr hp q = Inr (hp @ [hdrCopy hdr h], Some (length hp))"
  by (simp add: Import_Export_def)

lemma Merge_Some:
  assumes "deref hp p = Some h" and "deref hp q = Some from"
  shows "\<exists>a. p = Some a \<and> a < length hp \<and>
             Merge hdr hp p q = Inr (hp[a := hdrMerge hdr h from])"
proof -
  from assms(1) obtain a where "p = Some a" and "a < length hp"
    by (auto simp: deref_Some_iff)
  with assms show ?thesis by (simp add: Merge_def)
qed

subsection \<open>One entry of a contribution\<close>

lemma addScript_new:
  assumes w: "deref hp (Latencies w) = Some hw"
    and new: "map_of scripts (ScriptName w) = None"
  shows "addScript hdr w (hp, scripts) =
           Inr (hp @ [hdrCopy hdr hw],
                AList.update (ScriptName w)
                  \<lparr>ScriptName = ScriptName w, Rate = Rate w, Failed = Failed w,
                   Succeeded = Succeeded w, Latencies = Some (length hp)\<rparr> scripts)"
  using w new by (simp add: addScript_def Import_Export_Some)

lemma addScript_found:
  assumes w: "deref hp (Latencies w) = Some hw"
    and old: "map_of scripts (ScriptName w) = Some c"
    and c: "deref hp (Latencies c) = Some hc"
  shows "\<exists>a. Latencies c = Some a \<and> a < length hp \<and>
           addScript hdr w (hp, scripts) =
             Inr (hp[a := hdrMerge hdr hc hw],
                  AList.update (ScriptName w)
                    (c\<lparr>Rate := Rate c + Rate w, Succeeded := Succeeded c + Succeeded w,
                       Failed := Failed c + Failed w\<rparr>) scripts)"
proof -
  from Merge_Some [OF c w] obtain a where
    "Latencies c = Some a" and "a < length hp" and
    "Merge hdr hp (Latencies c) (Latencies w) = Inr (hp[a := hdrMerge hdr hc hw])"
    by blast
  with old show ?thesis
    by (simp add: addScript_def Let_def)
qed

lemma Add_scenario:
  assumes "deref hp p1 = Some H1" and "deref hp p2 = Some H2"
  shows "AddAll hdr
     [\<lparr>wScripts = [(''tx'', \<lparr>ScriptName = ''tx'', Rate = 10, Failed = 0, Succeeded = 100,
                            Latencies = p1\<rparr>)], wFailedByErrorGroup = []\<rparr>,
      \<lparr>wScripts = [(''tx'', \<lparr>ScriptName = ''tx'', Rate = 5, Failed = 1, Succeeded = 50,
                            Latencies = p2\<rparr>)], wFailedByErrorGroup = []\<rparr>]
     (hp, NewResult db sc) =
    Inr (hp @ [hdrMerge hdr (hdrCopy hdr H1) H2],
         \<lparr>DatabaseName = db, Scenario = sc, FailedByErrorGroup = [],
          Scripts = [(''tx'', \<lparr>ScriptName = ''tx'', Rate = 15, Failed = 1, Succeeded = 150,
                              Latencies = Some (length hp)\<rparr>)]\<rparr>)"
  using assms
  by (simp add: Add_def addScript_def Import_Export_def Merge_def NewResult_def
      deref_append_old deref_append_new)

text \<open>
  C1. \<open>Add\<close> handles an entry \<open>w\<close> of a contribution, whose histogram \<open>hw\<close> is there, as
  follows. If \<open>ScriptName w\<close> is not a key of \<open>r.Scripts\<close>, the call returns, the key now
  holds an entry with the counters of \<open>w\<close> and a histogram of its own: its address is a
  new one (not the contribution's, no address of the heap before), its content is the
  copy of \<open>hw\<close>, and no histogram there before has changed. If the key holds an entry \<open>c\<close>
  with histogram \<open>hc\<close>, the call returns, the key holds \<open>c\<close> with \<open>Rate\<close>, \<open>Succeeded\<close> and
  \<open>Failed\<close> of \<open>w\<close> added, and the histogram of \<open>c\<close> holds the merge of \<open>hc\<close> and \<open>hw\<close>, at
  the address it had, all other histograms unchanged. Other keys are left as they are.
  The scenario: two calls of \<open>Add\<close> on a new \<open>Result\<close>, for \<open>tx\<close> with (10, 100, 0, H1) and
  then (5, 50, 1, H2), leave \<open>tx\<close> with (15, 150, 1) and the merge of the copy of H1 with
  H2.
\<close>

theorem Add_per_script_entry:
  "(deref hp (Latencies w) = Some hw \<and> map_of scripts (ScriptName w) = None \<longrightarrow>
      (\<exists>hp' scripts'. addScript hdr w (hp, scripts) = Inr (hp', scripts') \<and>
         map_of scripts' (ScriptName w) =
           Some \<lparr>ScriptName = ScriptName w, Rate = Rate w, Failed = Failed w,
                 Succeeded = Succeeded w, Latencies = Some (length hp)\<rparr> \<and>
         (\<forall>k. k \<noteq> ScriptName w \<longrightarrow> map_of scripts' k = map_of scripts k) \<and>
         Latencies w \<noteq> Some (length hp) \<and> deref hp (Some (length hp)) = None \<and>
         hp' = hp @ [hdrCopy hdr hw])) \<and>
   (deref hp (Latencies w) = Some hw \<and> map_of scripts (ScriptName w) = Some c \<and>
    deref hp (Latencies c) = Some hc \<longrightarrow>
      (\<exists>hp' scripts' a. addScript hdr w (hp, scripts) = Inr (hp', scripts') \<and>
         map_of scripts' (ScriptName w) =
           Some (c\<lparr>Rate := Rate c + Rate w, Succeeded := Succeeded c + Succeeded w,
                   Failed := Failed c + Failed w\<rparr>) \<and>
         (\<forall>k. k \<noteq> ScriptName w \<longrightarrow> map_of scripts' k = map_of scripts k) \<and>
         Latencies c = Some a \<and> a < length hp \<and>
         hp' = hp[a := hdrMerge hdr hc hw])) \<and>
   (deref hp p1 = Some H1 \<and> deref hp p2 = Some H2 \<longrightarrow>
      AddAll hdr
        [\<lparr>wScripts = [(''tx'', \<lparr>ScriptName = ''tx'', Rate = 10, Failed = 0, Succeeded = 100,
                               Latencies = p1\<rparr>)], wFailedByErrorGroup = []\<rparr>,
         \<lparr>wScripts = [(''tx'', \<lparr>ScriptName = ''tx'', Rate = 5, Failed = 1, Succeeded = 50,
                               Latencies = p2\<rparr>)], wFailedByErrorGroup = []\<rparr>]
        (hp, NewResult db sc) =
      Inr (hp @ [hdrMerge hdr (hdrCopy hdr H1) H2],
           \<lparr>DatabaseName = db, Scenario = sc, FailedByErrorGroup = [],
            Scripts = [(''tx'', \<lparr>ScriptName = ''tx'', Rate = 15, Failed = 1, Succeeded = 150,
                                Latencies = Some (length hp)\<rparr>)]\<rparr>))"
proof (intro conjI impI)
  assume a: "deref hp (Latencies w) = Some hw \<and> map_of scripts (ScriptName w) = None"
  then have "Latencies w \<noteq> Some (length hp)"
    by (auto simp: deref_Some_iff)
  moreover have "deref hp (Some (length hp)) = None"
    by (simp add: deref_def)
  ultimately show "\<exists>hp' scripts'. addScript hdr w (hp, scripts) = Inr (hp', scripts') \<and>
         map_of scripts' (ScriptName w) =
           Some \<lparr>ScriptName = ScriptName w, Rate = Rate w, Failed = Failed w,
                 Succeeded = Succeeded w, Latencies = Some (length hp)\<rparr> \<and>
         (\<forall>k. k \<noteq> ScriptName w \<longrightarrow> map_of scripts' k = map_of scripts k) \<and>
         Latencies w \<noteq> Some (length hp) \<and> deref hp (Some (length hp)) = None \<and>
         hp' = hp @ [hdrCopy hdr hw]"
    using a by (simp add: addScript_new update_conv')
next
  assume a: "deref hp (Latencies w) = Some hw \<and> map_of scripts (ScriptName w) = Some c \<and>
    deref hp (Latencies c) = Some hc"
  then obtain a' where "Latencies c = Some a'" and "a' < length hp" and
    "addScript hdr w (hp, scripts) =
       Inr (hp[a' := hdrMerge hdr hc hw],
            AList.update (ScriptName w)
              (c\<lparr>Rate := Rate c + Rate w, Succeeded := Succeeded c + Succeeded w,
                 Failed := Failed c + Failed w\<rparr>) scripts)"
    using addScript_found [of hp w hw scripts c hc hdr] by blast
  then show "\<exists>hp' scripts' a. addScript hdr w (hp, scripts) = Inr (hp', scripts') \<and>
         map_of scripts' (ScriptName w) =
           Some (c\<lparr>Rate := Rate c + Rate w, Succeeded := Succeeded c + Succeeded w,
                   Failed := Failed c + Failed w\<rparr>) \<and>
         (\<forall>k. k \<noteq> ScriptName w \<longrightarrow> map_of scripts' k = map_of scripts k) \<and>
         Latencies c = Some a \<and> a < length hp \<and>
         hp' = hp[a := hdrMerge hdr hc hw]"
    by (simp add: update_conv')
next
  assume "deref hp p1 = Some H1 \<and> deref hp p2 = Some H2"
  then have "deref hp p1 = Some H1" and "deref hp p2 = Some H2"
    by simp_all
  then show "AddAll hdr
        [\<lparr>wScripts = [(''tx'', \<lparr>ScriptName = ''tx'', Rate = 10, Failed = 0, Succeeded = 100,
                               Latencies = p1\<rparr>)], wFailedByErrorGroup = []\<rparr>,
         \<lparr>wScripts = [(''tx'', \<lparr>ScriptName = ''tx'', Rate = 5, Failed = 1, Succeeded = 50,
                               Latencies = p2\<rparr>)], wFailedByErrorGroup = []\<rparr>]
        (hp, NewResult db sc) =
      Inr (hp @ [hdrMerge hdr (hdrCopy hdr H1) H2],
           \<lparr>DatabaseName = db, Scenario = sc, FailedByErrorGroup = [],
            Scripts = [(''tx'', \<lparr>ScriptName = ''tx'', Rate = 15, Failed = 1, Succeeded = 150,
                                Latencies = Some (length hp)\<rparr>)]\<rparr>)"
    by (rule Add_scenario)
qed

theorem Add_per_script_entry_witness:
  "deref [[3, 4], [5]] (Some 1) = Some [5::int] \<and>
   deref [[3, 4], [5]] (Some 0) = Some [3, 4::int] \<and>
   (\<exists>hp' scripts'.
      addScript listHdr
        \<lparr>ScriptName = ''tx'', Rate = 5, Failed = 1, Succeeded = 50, Latencies = Some 1\<rparr>
        ([[3, 4], [5]], []) = Inr (hp', scripts') \<and>
      map_of scripts' ''tx'' =
        Some \<lparr>ScriptName = ''tx'', Rate = 5, Failed = 1, Succeeded = 50, Latencies = Some 2\<rparr> \<and>
      hp' = [[3, 4], [5], [5]]) \<and>
   (\<exists>hp' scripts'.
      addScript listHdr
        \<lparr>ScriptName = ''tx'', Rate = 5, Failed = 1, Succeeded = 50, Latencies = Some 1\<rparr>
        ([[3, 4], [5]],
         [(''tx'', \<lparr>ScriptName = ''tx'', Rate = 10, Failed = 0, Succeeded = 100,
                    Latencies = Some 0\<rparr>)]) = Inr (hp', scripts') \<and>
      map_of scripts' ''tx'' =
        Some \<lparr>ScriptName = ''tx'', Rate = 15, Failed = 1, Succeeded = 150, Latencies = Some 0\<rparr> \<and>
      hp' = [[3, 4, 5], [5]]) \<and>
   AddAll listHdr
     [\<lparr>wScripts = [(''tx'', \<lparr>ScriptName = ''tx'', Rate = 10, Failed = 0, Succeeded = 100,
                            Latencies = Some 0\<rparr>)], wFailedByErrorGroup = []\<rparr>,
      \<lparr>wScripts = [(''tx'', \<lparr>ScriptName = ''tx'', Rate = 5, Failed = 1, Succeeded = 50,
                            Latencies = Some 1\<rparr>)], wFailedByErrorGroup = []\<rparr>]
     ([[3, 4], [5]], NewResult ''neo4j'' ''-w tx'') =
   Inr ([[3, 4], [5], [3, 4, 5]],
        \<lparr>DatabaseName = ''neo4j'', Scenario = ''-w tx'', FailedByErrorGroup = [],
         Scripts = [(''tx'', \<lparr>ScriptName = ''tx'', Rate = 15, Failed = 1, Succeeded = 150,
                             Latencies = Some 2\<rparr>)]\<rparr>)"
  using Add_per_script_entry [where hp = "[[3, 4], [5]]" and hdr = listHdr and hw = "[5]"
      and w = "\<lparr>ScriptName = ''tx'', Rate = 5, Failed = 1, Succeeded = 50, Latencies = Some 1\<rparr>"
      and scripts = "[]"]
    Add_per_script_entry [where hp = "[[3, 4], [5]]" and hdr = listHdr and hw = "[5]"
      and w = "\<lparr>ScriptName = ''tx'', Rate = 5, Failed = 1, Succeeded = 50, Latencies = Some 1\<rparr>"
      and scripts = "[(''tx'', \<lparr>ScriptName = ''tx'', Rate = 10, Failed = 0, Succeeded = 100,
                    Latencies = Some 0\<rparr>)]"
      and c = "\<lparr>ScriptName = ''tx'', Rate = 10, Failed = 0, Succeeded = 100, Latencies = Some 0\<rparr>"
      and hc = "[3, 4]" and ?p1.0 = "Some 0" and ?p2.0 = "Some 1"
      and ?H1.0 = "[3, 4]" and ?H2.0 = "[5]" and db = "''neo4j''" and sc = "''-w tx''"]
  by (simp add: deref_def listHdr_def addScript_def Import_Export_def Merge_def)

subsection \<open>Add returns\<close>

lemma deref_live_iff: "deref hp p \<noteq> None \<longleftrightarrow> (\<exists>a. p = Some a \<and> a < length hp)"
  by (auto simp: deref_def split: option.splits)

lemma live_mono: "live hp entries \<Longrightarrow> length hp \<le> length hp' \<Longrightarrow> live hp' entries"
  unfolding live_def list_all_iff deref_live_iff by fastforce

lemma live_update:
  "live hp entries \<Longrightarrow> deref hp (Latencies v) \<noteq> None \<Longrightarrow> live hp (AList.update k v entries)"
  by (induction entries) (auto simp: live_def)

lemma live_lookup: "live hp entries \<Longrightarrow> map_of entries k = Some c \<Longrightarrow> deref hp (Latencies c) \<noteq> None"
  by (auto simp: live_def list_all_iff dest!: map_of_SomeD)

lemma addScript_returns:
  assumes l: "live hp scripts" and w: "deref hp (Latencies w) \<noteq> None"
  shows "\<exists>hp' scripts'. addScript hdr w (hp, scripts) = Inr (hp', scripts') \<and>
           live hp' scripts' \<and> length hp \<le> length hp'"
proof -
  from w obtain hw where hw: "deref hp (Latencies w) = Some hw" by blast
  show ?thesis
  proof (cases "map_of scripts (ScriptName w)")
    case None
    let ?hp' = "hp @ [hdrCopy hdr hw]"
    let ?e = "\<lparr>ScriptName = ScriptName w, Rate = Rate w, Failed = Failed w,
                Succeeded = Succeeded w, Latencies = Some (length hp)\<rparr>"
    have "live ?hp' scripts" using l by (rule live_mono) simp
    moreover have "deref ?hp' (Latencies ?e) \<noteq> None" by (simp add: deref_def)
    ultimately have "live ?hp' (AList.update (ScriptName w) ?e scripts)"
      by (rule live_update)
    with addScript_new [OF hw None, of hdr] show ?thesis by simp
  next
    case (Some c)
    from live_lookup [OF l Some] obtain hc where hc: "deref hp (Latencies c) = Some hc"
      by blast
    let ?c' = "c\<lparr>Rate := Rate c + Rate w, Succeeded := Succeeded c + Succeeded w,
                  Failed := Failed c + Failed w\<rparr>"
    from addScript_found [OF hw Some hc, of hdr] obtain a where
      a: "Latencies c = Some a" "a < length hp" and
      eq: "addScript hdr w (hp, scripts) =
             Inr (hp[a := hdrMerge hdr hc hw], AList.update (ScriptName w) ?c' scripts)"
      by blast
    let ?hp' = "hp[a := hdrMerge hdr hc hw]"
    have "live ?hp' scripts" using l by (rule live_mono) simp
    moreover have "deref ?hp' (Latencies ?c') \<noteq> None" using a by (simp add: deref_def)
    ultimately have "live ?hp' (AList.update (ScriptName w) ?c' scripts)"
      by (rule live_update)
    with eq show ?thesis by simp
  qed
qed

lemma addScripts_returns:
  "live hp scripts \<Longrightarrow> live hp ws \<Longrightarrow>
   \<exists>hp' scripts'. addScripts hdr ws (hp, scripts) = Inr (hp', scripts') \<and>
      live hp' scripts' \<and> length hp \<le> length hp'"
proof (induction ws arbitrary: hp scripts)
  case Nil
  then show ?case by simp
next
  case (Cons kw ws)
  from Cons.prems(2) have w: "deref hp (Latencies (snd kw)) \<noteq> None" and ws: "live hp ws"
    by (simp_all add: live_def)
  from addScript_returns [OF Cons.prems(1) w, of hdr] obtain hp1 scripts1 where
    one: "addScript hdr (snd kw) (hp, scripts) = Inr (hp1, scripts1)"
    and l1: "live hp1 scripts1" and len: "length hp \<le> length hp1"
    by blast
  from ws len have "live hp1 ws" by (rule live_mono)
  from Cons.IH [OF l1 this] obtain hp' scripts' where
    "addScripts hdr ws (hp1, scripts1) = Inr (hp', scripts')"
    "live hp' scripts'" "length hp1 \<le> length hp'"
    by blast
  with one len show ?case by simp
qed

lemma Add_returns:
  assumes "live hp (Scripts r)" and "live hp (wScripts res)"
  shows "\<exists>hp' r'. Add hdr res (hp, r) = Inr (hp', r') \<and>
           live hp' (Scripts r') \<and> length hp \<le> length hp'"
proof -
  from addScripts_returns [OF assms, of hdr] obtain hp' scripts' where
    "addScripts hdr (wScripts res) (hp, Scripts r) = Inr (hp', scripts')"
    "live hp' scripts'" "length hp \<le> length hp'"
    by blast
  then show ?thesis by (simp add: Add_def)
qed

lemma AddAll_returns:
  "live hp (Scripts r) \<Longrightarrow> list_all (\<lambda>res. live hp (wScripts res)) ws \<Longrightarrow>
   \<exists>hp' r'. AddAll hdr ws (hp, r) = Inr (hp', r') \<and> live hp' (Scripts r')"
proof (induction ws arbitrary: hp r)
  case Nil
  then show ?case by simp
next
  case (Cons res ws)
  from Cons.prems(2) have res: "live hp (wScripts res)"
    and ws: "list_all (\<lambda>res. live hp (wScripts res)) ws"
    by simp_all
  from Add_returns [OF Cons.prems(1) res, of hdr] obtain hp1 r1 where
    one: "Add hdr res (hp, r) = Inr (hp1, r1)" and l1: "live hp1 (Scripts r1)"
    and len: "length hp \<le> length hp1"
    by blast
  from ws len have "list_all (\<lambda>res. live hp1 (wScripts res)) ws"
    by (auto simp: list_all_iff intro: live_mono)
  from Cons.IH [OF l1 this] one show ?case by simp
qed

subsection \<open>Failure groups\<close>

lemma addGroup_lookup:
  "map_of (addGroup (name, grp) groups) k =
     (if k = name then
        (case map_of groups name of
           Some existing \<Rightarrow>
             Some \<lparr>Count = Count existing + Count grp, FirstFailure = FirstFailure existing\<rparr>
         | None \<Rightarrow> Some grp)
      else map_of groups k)"
  by (simp add: addGroup_def update_conv' split: option.splits)

lemma addGroups_present:
  "map_of groups g = Some e \<Longrightarrow>
   map_of (foldl (\<lambda>a ng. addGroup ng a) groups ngs) g =
     Some \<lparr>Count = Count e + sum_list (map (\<lambda>ng. Count (snd ng)) (filter (\<lambda>ng. fst ng = g) ngs)),
           FirstFailure = FirstFailure e\<rparr>"
proof (induction ngs arbitrary: groups e)
  case Nil
  then show ?case by simp
next
  case (Cons ng ngs)
  obtain name grp where ng: "ng = (name, grp)" by (cases ng)
  show ?case
  proof (cases "name = g")
    case True
    with Cons.prems ng have
      "map_of (addGroup ng groups) g =
         Some \<lparr>Count = Count e + Count grp, FirstFailure = FirstFailure e\<rparr>"
      by (simp add: addGroup_lookup)
    from Cons.IH [OF this] True ng show ?thesis
      by (simp add: add.assoc)
  next
    case False
    with Cons.prems ng have "map_of (addGroup ng groups) g = Some e"
      by (simp add: addGroup_lookup)
    from Cons.IH [OF this] False ng show ?thesis
      by simp
  qed
qed

lemma addGroups_absent:
  "map_of groups g = None \<Longrightarrow> distinct (map fst ngs) \<Longrightarrow>
   map_of (foldl (\<lambda>a ng. addGroup ng a) groups ngs) g = map_of ngs g"
proof (induction ngs arbitrary: groups)
  case Nil
  then show ?case by simp
next
  case (Cons ng ngs)
  obtain name grp where ng: "ng = (name, grp)" by (cases ng)
  show ?case
  proof (cases "name = g")
    case True
    with Cons.prems ng have here: "map_of (addGroup ng groups) g = Some grp"
      by (simp add: addGroup_lookup)
    from Cons.prems True ng have "filter (\<lambda>ng. fst ng = g) ngs = []"
      by (auto simp: filter_empty_conv)
    with addGroups_present [OF here, of ngs] True ng show ?thesis
      by simp
  next
    case False
    with Cons.prems ng have "map_of (addGroup ng groups) g = None"
      by (simp add: addGroup_lookup)
    from Cons.IH [OF this] Cons.prems False ng show ?thesis
      by simp
  qed
qed

lemma Add_groups:
  "Add hdr res (hp, r) = Inr (hp', r') \<Longrightarrow>
   FailedByErrorGroup r' =
     foldl (\<lambda>a ng. addGroup ng a) (FailedByErrorGroup r) (wFailedByErrorGroup res)"
  by (auto simp: Add_def split: sum.splits)

lemma AddAll_present:
  "AddAll hdr ws (hp, r) = Inr (hp', r') \<Longrightarrow> map_of (FailedByErrorGroup r) g = Some e \<Longrightarrow>
   map_of (FailedByErrorGroup r') g =
     Some \<lparr>Count = Count e +
             sum_list (map (\<lambda>ng. Count (snd ng))
               (filter (\<lambda>ng. fst ng = g) (concat (map wFailedByErrorGroup ws)))),
           FirstFailure = FirstFailure e\<rparr>"
proof (induction ws arbitrary: hp r e)
  case Nil
  then show ?case by simp
next
  case (Cons res ws)
  from Cons.prems(1) obtain hp1 r1 where
    step: "Add hdr res (hp, r) = Inr (hp1, r1)" and rest: "AddAll hdr ws (hp1, r1) = Inr (hp', r')"
    by (auto split: sum.splits)
  from Add_groups [OF step] Cons.prems(2) have
    "map_of (FailedByErrorGroup r1) g =
       Some \<lparr>Count = Count e + sum_list (map (\<lambda>ng. Count (snd ng))
                 (filter (\<lambda>ng. fst ng = g) (wFailedByErrorGroup res))),
             FirstFailure = FirstFailure e\<rparr>"
    by (simp add: addGroups_present)
  from Cons.IH [OF rest this] show ?case
    by (simp add: add.assoc)
qed

text \<open>
  C2. Let \<open>g\<close> be a group of \<open>r\<close> with entry \<open>e\<close>. After any sequence \<open>ws\<close> of \<open>Add\<close> calls
  that returns, \<open>g\<close> still has the \<open>FirstFailure\<close> of \<open>e\<close>, and its \<open>Count\<close> is the one of
  \<open>e\<close> plus the counts of all entries for \<open>g\<close> in the contributions (an \<open>int64\<close> sum).
  A group that \<open>r\<close> does not have is, after one \<open>Add\<close>, what the contribution has for it
  (a Go map has one entry for a key). The calls return when the histogram pointers of
  \<open>r\<close> and of the contributions are live.
\<close>

theorem FirstFailure_kept_Count_summed:
  "(map_of (FailedByErrorGroup r) g = Some e \<and> AddAll hdr ws (hp, r) = Inr (hp', r') \<longrightarrow>
      map_of (FailedByErrorGroup r') g =
        Some \<lparr>Count = Count e +
                sum_list (map (\<lambda>ng. Count (snd ng))
                  (filter (\<lambda>ng. fst ng = g) (concat (map wFailedByErrorGroup ws)))),
              FirstFailure = FirstFailure e\<rparr>) \<and>
   (map_of (FailedByErrorGroup r) g = None \<and> distinct (map fst (wFailedByErrorGroup res)) \<and>
    Add hdr res (hp, r) = Inr (hp1, r1) \<longrightarrow>
      map_of (FailedByErrorGroup r1) g = map_of (wFailedByErrorGroup res) g) \<and>
   (live hp (Scripts r) \<and> list_all (\<lambda>res. live hp (wScripts res)) ws \<longrightarrow>
      (\<exists>hp' r'. AddAll hdr ws (hp, r) = Inr (hp', r')))"
proof (intro conjI impI)
  assume "map_of (FailedByErrorGroup r) g = Some e \<and> AddAll hdr ws (hp, r) = Inr (hp', r')"
  then have "AddAll hdr ws (hp, r) = Inr (hp', r')" and "map_of (FailedByErrorGroup r) g = Some e"
    by simp_all
  then show "map_of (FailedByErrorGroup r') g =
        Some \<lparr>Count = Count e +
                sum_list (map (\<lambda>ng. Count (snd ng))
                  (filter (\<lambda>ng. fst ng = g) (concat (map wFailedByErrorGroup ws)))),
              FirstFailure = FirstFailure e\<rparr>"
    by (rule AddAll_present)
next
  assume a: "map_of (FailedByErrorGroup r) g = None \<and>
    distinct (map fst (wFailedByErrorGroup res)) \<and> Add hdr res (hp, r) = Inr (hp1, r1)"
  then have "Add hdr res (hp, r) = Inr (hp1, r1)"
    by simp
  then have "FailedByErrorGroup r1 =
      foldl (\<lambda>a ng. addGroup ng a) (FailedByErrorGroup r) (wFailedByErrorGroup res)"
    by (rule Add_groups)
  with a show "map_of (FailedByErrorGroup r1) g = map_of (wFailedByErrorGroup res) g"
    by (simp add: addGroups_absent)
next
  assume "live hp (Scripts r) \<and> list_all (\<lambda>res. live hp (wScripts res)) ws"
  then have "live hp (Scripts r)" and "list_all (\<lambda>res. live hp (wScripts res)) ws"
    by simp_all
  from AddAll_returns [OF this, of hdr] show "\<exists>hp' r'. AddAll hdr ws (hp, r) = Inr (hp', r')"
    by blast
qed

theorem FirstFailure_kept_Count_summed_witness:
  "AddAll listHdr
     [\<lparr>wScripts = [], wFailedByErrorGroup = [(''timeout'', \<lparr>Count = 3, FirstFailure = ''second''\<rparr>)]\<rparr>,
      \<lparr>wScripts = [], wFailedByErrorGroup = [(''timeout'', \<lparr>Count = 4, FirstFailure = ''third''\<rparr>)]\<rparr>]
     ([], \<lparr>DatabaseName = ''db'', Scenario = ''s'',
           FailedByErrorGroup = [(''timeout'', \<lparr>Count = 2, FirstFailure = ''first''\<rparr>)],
           Scripts = []\<rparr>) =
   Inr ([], \<lparr>DatabaseName = ''db'', Scenario = ''s'',
           FailedByErrorGroup = [(''timeout'', \<lparr>Count = 9, FirstFailure = ''first''\<rparr>)],
           Scripts = []\<rparr>) \<and>
   map_of [(''timeout'', \<lparr>Count = 9, FirstFailure = ''first''\<rparr>)] ''timeout'' =
     Some \<lparr>Count = 2 + (3 + 4), FirstFailure = ''first''\<rparr> \<and>
   Add listHdr
     \<lparr>wScripts = [], wFailedByErrorGroup = [(''timeout'', \<lparr>Count = 3, FirstFailure = ''second''\<rparr>)]\<rparr>
     ([], NewResult ''db'' ''s'') =
   Inr ([], \<lparr>DatabaseName = ''db'', Scenario = ''s'',
           FailedByErrorGroup = [(''timeout'', \<lparr>Count = 3, FirstFailure = ''second''\<rparr>)],
           Scripts = []\<rparr>) \<and>
   map_of [(''timeout'', \<lparr>Count = 3, FirstFailure = ''second''\<rparr>)] ''timeout'' =
     Some \<lparr>Count = 3, FirstFailure = ''second''\<rparr> \<and>
   live ([] :: int list heap) [] \<and>
   (\<exists>hp' r'. AddAll listHdr
     [\<lparr>wScripts = [], wFailedByErrorGroup = [(''timeout'', \<lparr>Count = 3, FirstFailure = ''second''\<rparr>)]\<rparr>,
      \<lparr>wScripts = [], wFailedByErrorGroup = [(''timeout'', \<lparr>Count = 4, FirstFailure = ''third''\<rparr>)]\<rparr>]
     ([], \<lparr>DatabaseName = ''db'', Scenario = ''s'',
           FailedByErrorGroup = [(''timeout'', \<lparr>Count = 2, FirstFailure = ''first''\<rparr>)],
           Scripts = []\<rparr>) = Inr (hp', r'))"
proof -
  let ?e = "\<lparr>Count = 2, FirstFailure = ''first''\<rparr>"
  let ?r = "\<lparr>DatabaseName = ''db'', Scenario = ''s'',
             FailedByErrorGroup = [(''timeout'', ?e)], Scripts = []\<rparr>"
  let ?r' = "\<lparr>DatabaseName = ''db'', Scenario = ''s'',
              FailedByErrorGroup = [(''timeout'', \<lparr>Count = 9, FirstFailure = ''first''\<rparr>)],
              Scripts = []\<rparr>"
  let ?r1 = "\<lparr>DatabaseName = ''db'', Scenario = ''s'',
              FailedByErrorGroup = [(''timeout'', \<lparr>Count = 3, FirstFailure = ''second''\<rparr>)],
              Scripts = []\<rparr>"
  let ?w1 = "\<lparr>wScripts = [], wFailedByErrorGroup =
               [(''timeout'', \<lparr>Count = 3, FirstFailure = ''second''\<rparr>)]\<rparr>"
  let ?w2 = "\<lparr>wScripts = [], wFailedByErrorGroup =
               [(''timeout'', \<lparr>Count = 4, FirstFailure = ''third''\<rparr>)]\<rparr>"
  let ?hp = "[] :: int list heap"
  have run: "AddAll listHdr [?w1, ?w2] (?hp, ?r) = Inr (?hp, ?r')"
    by (simp add: Add_def addGroup_def)
  have one: "Add listHdr ?w1 (?hp, NewResult ''db'' ''s'') = Inr (?hp, ?r1)"
    by (simp add: Add_def addGroup_def NewResult_def)
  have lv: "live ?hp []"
    by (simp add: live_def)
  have present: "map_of (FailedByErrorGroup ?r) ''timeout'' = Some ?e"
    by simp
  have absent: "map_of (FailedByErrorGroup (NewResult ''db'' ''s'')) ''timeout'' = None"
    by (simp add: NewResult_def)
  have keys: "distinct (map fst (wFailedByErrorGroup ?w1))"
    by simp
  note thm1 = FirstFailure_kept_Count_summed [where hdr = listHdr and g = "''timeout''"
      and r = ?r and e = ?e and hp = ?hp and ws = "[?w1, ?w2]" and hp' = ?hp and r' = ?r']
  note thm2 = FirstFailure_kept_Count_summed [where hdr = listHdr and g = "''timeout''"
      and r = "NewResult ''db'' ''s''" and hp = ?hp and res = ?w1 and ?hp1.0 = ?hp
      and ?r1.0 = ?r1]
  from thm1 [THEN conjunct1, THEN mp, OF conjI, OF present run]
  have c1: "map_of [(''timeout'', \<lparr>Count = 9, FirstFailure = ''first''\<rparr>)] ''timeout'' =
     Some \<lparr>Count = 2 + (3 + 4), FirstFailure = ''first''\<rparr>"
    by simp
  from thm2 [THEN conjunct2, THEN conjunct1, THEN mp, OF conjI, OF absent conjI, OF keys one]
  have c2: "map_of [(''timeout'', \<lparr>Count = 3, FirstFailure = ''second''\<rparr>)] ''timeout'' =
     Some \<lparr>Count = 3, FirstFailure = ''second''\<rparr>"
    by simp
  have lvs: "live ?hp (Scripts ?r) \<and> list_all (\<lambda>res. live ?hp (wScripts res)) [?w1, ?w2]"
    by (simp add: live_def)
  from thm1 [THEN conjunct2, THEN conjunct2, THEN mp, OF lvs]
  have c3: "\<exists>hp' r'. AddAll listHdr [?w1, ?w2] (?hp, ?r) = Inr (hp', r')" .
  from run c1 one c2 lv c3 show ?thesis
    by (intro conjI)
qed

subsection \<open>Totals\<close>

lemma foldl_plus_sum_list:
  fixes a :: "'a::monoid_add"
  shows "foldl (\<lambda>n s. n + f s) a xs = a + sum_list (map f xs)"
  by (induction xs arbitrary: a) (simp_all add: add.assoc)

lemma TotalSucceeded_sum: "TotalSucceeded r = sum_list (map (\<lambda>s. Succeeded (snd s)) (Scripts r))"
  by (simp add: TotalSucceeded_def foldl_plus_sum_list)

lemma TotalFailed_sum: "TotalFailed r = sum_list (map (\<lambda>s. Failed (snd s)) (Scripts r))"
  by (simp add: TotalFailed_def foldl_plus_sum_list)

lemma TotalRate_sum: "TotalRate r = sum_list (map (\<lambda>s. Rate (snd s)) (Scripts r))"
  by (simp add: TotalRate_def foldl_plus_sum_list)

lemma update_fresh: "map_of al k = None \<Longrightarrow> AList.update k v al = al @ [(k, v)]"
  by (induction al) (auto split: if_splits)

lemma addScripts_fresh:
  "distinct (map fst scripts @ map (\<lambda>kw. ScriptName (snd kw)) ws) \<Longrightarrow> live hp ws \<Longrightarrow>
   \<exists>ext new. addScripts hdr ws (hp, scripts) = Inr (hp @ ext, scripts @ new) \<and>
      map fst new = map (\<lambda>kw. ScriptName (snd kw)) ws \<and>
      map (\<lambda>e. Succeeded (snd e)) new = map (\<lambda>kw. Succeeded (snd kw)) ws \<and>
      map (\<lambda>e. Failed (snd e)) new = map (\<lambda>kw. Failed (snd kw)) ws \<and>
      map (\<lambda>e. Rate (snd e)) new = map (\<lambda>kw. Rate (snd kw)) ws"
proof (induction ws arbitrary: hp scripts)
  case Nil
  show ?case by (intro exI [of _ "[]"]) simp
next
  case (Cons kw ws)
  let ?w = "snd kw"
  let ?e = "\<lparr>ScriptName = ScriptName ?w, Rate = Rate ?w, Failed = Failed ?w,
              Succeeded = Succeeded ?w, Latencies = Some (length hp)\<rparr>"
  from Cons.prems(2) obtain hw where hw: "deref hp (Latencies ?w) = Some hw"
    and ws: "live hp ws"
    by (auto simp: live_def)
  from Cons.prems(1) have new: "map_of scripts (ScriptName ?w) = None"
    by (auto simp: map_of_eq_None_iff)
  let ?hp1 = "hp @ [hdrCopy hdr hw]"
  let ?s1 = "scripts @ [(ScriptName ?w, ?e)]"
  have one: "addScript hdr ?w (hp, scripts) = Inr (?hp1, ?s1)"
    using addScript_new [OF hw new, of hdr] by (simp add: update_fresh [OF new])
  from Cons.prems(1) have d: "distinct (map fst ?s1 @ map (\<lambda>kw. ScriptName (snd kw)) ws)"
    by auto
  have l: "live ?hp1 ws" using ws by (rule live_mono) simp
  from Cons.IH [OF d l] obtain ext new where
    rest: "addScripts hdr ws (?hp1, ?s1) = Inr (?hp1 @ ext, ?s1 @ new)"
    and m: "map fst new = map (\<lambda>kw. ScriptName (snd kw)) ws"
      "map (\<lambda>e. Succeeded (snd e)) new = map (\<lambda>kw. Succeeded (snd kw)) ws"
      "map (\<lambda>e. Failed (snd e)) new = map (\<lambda>kw. Failed (snd kw)) ws"
      "map (\<lambda>e. Rate (snd e)) new = map (\<lambda>kw. Rate (snd kw)) ws"
    by blast
  let ?ext = "hdrCopy hdr hw # ext"
  let ?new = "(ScriptName ?w, ?e) # new"
  from one rest have "addScripts hdr (kw # ws) (hp, scripts) = Inr (hp @ ?ext, scripts @ ?new)"
    by simp
  moreover from m have "map fst ?new = map (\<lambda>kw. ScriptName (snd kw)) (kw # ws)"
    "map (\<lambda>e. Succeeded (snd e)) ?new = map (\<lambda>kw. Succeeded (snd kw)) (kw # ws)"
    "map (\<lambda>e. Failed (snd e)) ?new = map (\<lambda>kw. Failed (snd kw)) (kw # ws)"
    "map (\<lambda>e. Rate (snd e)) ?new = map (\<lambda>kw. Rate (snd kw)) (kw # ws)"
    by simp_all
  ultimately show ?case by blast
qed

lemma Add_fresh:
  assumes "distinct (map fst (Scripts r) @ map (\<lambda>kw. ScriptName (snd kw)) (wScripts res))"
    and "live hp (wScripts res)"
  shows "\<exists>ext r'. Add hdr res (hp, r) = Inr (hp @ ext, r') \<and>
      map fst (Scripts r') = map fst (Scripts r) @ map (\<lambda>kw. ScriptName (snd kw)) (wScripts res) \<and>
      TotalSucceeded r' = TotalSucceeded r + sum_list (map (\<lambda>kw. Succeeded (snd kw)) (wScripts res)) \<and>
      TotalFailed r' = TotalFailed r + sum_list (map (\<lambda>kw. Failed (snd kw)) (wScripts res)) \<and>
      TotalRate r' = TotalRate r + sum_list (map (\<lambda>kw. Rate (snd kw)) (wScripts res))"
proof -
  from addScripts_fresh [OF assms, of hdr] obtain ext new where
    run: "addScripts hdr (wScripts res) (hp, Scripts r) = Inr (hp @ ext, Scripts r @ new)"
    and m: "map fst new = map (\<lambda>kw. ScriptName (snd kw)) (wScripts res)"
      "map (\<lambda>e. Succeeded (snd e)) new = map (\<lambda>kw. Succeeded (snd kw)) (wScripts res)"
      "map (\<lambda>e. Failed (snd e)) new = map (\<lambda>kw. Failed (snd kw)) (wScripts res)"
      "map (\<lambda>e. Rate (snd e)) new = map (\<lambda>kw. Rate (snd kw)) (wScripts res)"
    by blast
  let ?r' = "r\<lparr>Scripts := Scripts r @ new,
               FailedByErrorGroup := foldl (\<lambda>g ng. addGroup ng g) (FailedByErrorGroup r)
                 (wFailedByErrorGroup res)\<rparr>"
  from run have "Add hdr res (hp, r) = Inr (hp @ ext, ?r')"
    by (simp add: Add_def)
  moreover from m have "map fst (Scripts ?r') =
      map fst (Scripts r) @ map (\<lambda>kw. ScriptName (snd kw)) (wScripts res)"
    "TotalSucceeded ?r' = TotalSucceeded r + sum_list (map (\<lambda>kw. Succeeded (snd kw)) (wScripts res))"
    "TotalFailed ?r' = TotalFailed r + sum_list (map (\<lambda>kw. Failed (snd kw)) (wScripts res))"
    "TotalRate ?r' = TotalRate r + sum_list (map (\<lambda>kw. Rate (snd kw)) (wScripts res))"
    by (simp_all add: TotalSucceeded_sum TotalFailed_sum TotalRate_sum)
  ultimately show ?thesis by blast
qed

lemma AddAll_fresh:
  "distinct (map fst (Scripts r) @
      concat (map (\<lambda>res. map (\<lambda>kw. ScriptName (snd kw)) (wScripts res)) ws)) \<Longrightarrow>
   list_all (\<lambda>res. live hp (wScripts res)) ws \<Longrightarrow>
   \<exists>hp' r'. AddAll hdr ws (hp, r) = Inr (hp', r') \<and>
      TotalSucceeded r' = TotalSucceeded r +
        sum_list (map (\<lambda>res. sum_list (map (\<lambda>kw. Succeeded (snd kw)) (wScripts res))) ws) \<and>
      TotalFailed r' = TotalFailed r +
        sum_list (map (\<lambda>res. sum_list (map (\<lambda>kw. Failed (snd kw)) (wScripts res))) ws) \<and>
      TotalRate r' = TotalRate r +
        sum_list (map (\<lambda>res. sum_list (map (\<lambda>kw. Rate (snd kw)) (wScripts res))) ws)"
proof (induction ws arbitrary: hp r)
  case Nil
  then show ?case by simp
next
  case (Cons res ws)
  let ?names = "\<lambda>res. map (\<lambda>kw. ScriptName (snd kw)) (wScripts res)"
  from Cons.prems(1) have d0: "distinct (map fst (Scripts r) @ ?names res)"
    by auto
  from Cons.prems(2) have l0: "live hp (wScripts res)"
    and ls: "list_all (\<lambda>res. live hp (wScripts res)) ws"
    by simp_all
  from Add_fresh [OF d0 l0, of hdr] obtain ext r1 where
    one: "Add hdr res (hp, r) = Inr (hp @ ext, r1)"
    and keys: "map fst (Scripts r1) = map fst (Scripts r) @ ?names res"
    and t: "TotalSucceeded r1 = TotalSucceeded r + sum_list (map (\<lambda>kw. Succeeded (snd kw)) (wScripts res))"
      "TotalFailed r1 = TotalFailed r + sum_list (map (\<lambda>kw. Failed (snd kw)) (wScripts res))"
      "TotalRate r1 = TotalRate r + sum_list (map (\<lambda>kw. Rate (snd kw)) (wScripts res))"
    by blast
  from Cons.prems(1) keys have d1: "distinct (map fst (Scripts r1) @ concat (map ?names ws))"
    by simp
  from ls have l1: "list_all (\<lambda>res. live (hp @ ext) (wScripts res)) ws"
    by (auto simp: list_all_iff intro: live_mono)
  from Cons.IH [OF d1 l1] obtain hp' r' where
    rest: "AddAll hdr ws (hp @ ext, r1) = Inr (hp', r')"
    and t': "TotalSucceeded r' = TotalSucceeded r1 +
        sum_list (map (\<lambda>res. sum_list (map (\<lambda>kw. Succeeded (snd kw)) (wScripts res))) ws)"
      "TotalFailed r' = TotalFailed r1 +
        sum_list (map (\<lambda>res. sum_list (map (\<lambda>kw. Failed (snd kw)) (wScripts res))) ws)"
      "TotalRate r' = TotalRate r1 +
        sum_list (map (\<lambda>res. sum_list (map (\<lambda>kw. Rate (snd kw)) (wScripts res))) ws)"
    by blast
  from one rest have "AddAll hdr (res # ws) (hp, r) = Inr (hp', r')" by simp
  with t t' show ?case by (simp add: add.assoc)
qed

lemma distinct_names_perm:
  assumes "mset ws' = mset ws"
  shows "distinct (concat (map f ws')) \<longleftrightarrow> distinct (concat (map f ws))"
proof -
  have "mset (concat (map f ws')) = sum_mset (image_mset (\<lambda>x. mset (f x)) (mset ws'))"
    by (simp add: mset_concat comp_def flip: sum_mset_sum_list)
  also have "\<dots> = sum_mset (image_mset (\<lambda>x. mset (f x)) (mset ws))"
    by (simp add: assms)
  also have "\<dots> = mset (concat (map f ws))"
    by (simp add: mset_concat comp_def flip: sum_mset_sum_list)
  finally show ?thesis by (rule mset_eq_imp_distinct_iff)
qed

lemma sum_list_perm:
  fixes f :: "'a \<Rightarrow> 'b::comm_monoid_add"
  assumes "mset ws' = mset ws"
  shows "sum_list (map f ws') = sum_list (map f ws)"
proof -
  have "sum_list (map f ws') = sum_mset (image_mset f (mset ws'))"
    by (simp flip: sum_mset_sum_list)
  also have "\<dots> = sum_list (map f ws)"
    by (simp add: assms flip: sum_mset_sum_list)
  finally show ?thesis .
qed

text \<open>
  C8. Let the script names of the contributions \<open>ws\<close> be pairwise different, within a
  contribution and between them, and their histogram pointers live. Passed to \<open>Add\<close> on
  a new \<open>Result\<close> in any order \<open>ws'\<close>, the calls return, and \<open>TotalSucceeded\<close>, \<open>TotalFailed\<close>
  and \<open>TotalRate\<close> are the sums over the contributions of the sums over their entries:
  the same for every order. The counters are \<open>int64\<close> sums, the rate an exact one.
\<close>

theorem totals_over_disjoint_contributions:
  assumes "distinct (concat (map (\<lambda>res. map (\<lambda>kw. ScriptName (snd kw)) (wScripts res)) ws))"
    and "list_all (\<lambda>res. live hp (wScripts res)) ws"
    and "mset ws' = mset ws"
  shows "\<exists>hp' r'. AddAll hdr ws' (hp, NewResult db sc) = Inr (hp', r') \<and>
      TotalSucceeded r' =
        sum_list (map (\<lambda>res. sum_list (map (\<lambda>kw. Succeeded (snd kw)) (wScripts res))) ws) \<and>
      TotalFailed r' =
        sum_list (map (\<lambda>res. sum_list (map (\<lambda>kw. Failed (snd kw)) (wScripts res))) ws) \<and>
      TotalRate r' =
        sum_list (map (\<lambda>res. sum_list (map (\<lambda>kw. Rate (snd kw)) (wScripts res))) ws)"
proof -
  let ?names = "\<lambda>res. map (\<lambda>kw. ScriptName (snd kw)) (wScripts res)"
  from assms(1,3) have "distinct (concat (map ?names ws'))"
    by (simp add: distinct_names_perm [of ws' ws])
  then have d: "distinct (map fst (Scripts (NewResult db sc)) @ concat (map ?names ws'))"
    by (simp add: NewResult_def)
  from assms(2,3) have l: "list_all (\<lambda>res. live hp (wScripts res)) ws'"
    by (auto simp: list_all_iff dest: mset_eq_setD)
  have z: "TotalSucceeded (NewResult db sc) = 0" "TotalFailed (NewResult db sc) = 0"
    "TotalRate (NewResult db sc) = 0"
    by (simp_all add: NewResult_def TotalSucceeded_def TotalFailed_def TotalRate_def)
  from AddAll_fresh [OF d l, of hdr] show ?thesis
    by (simp add: z sum_list_perm [OF assms(3)])
qed

theorem totals_over_disjoint_contributions_witness:
  "distinct (concat (map (\<lambda>res. map (\<lambda>kw. ScriptName (snd kw)) (wScripts res))
     [\<lparr>wScripts = [(''a'', \<lparr>ScriptName = ''a'', Rate = 10, Failed = 0, Succeeded = 100, Latencies = Some 0\<rparr>)],
       wFailedByErrorGroup = []\<rparr>,
      \<lparr>wScripts = [(''b'', \<lparr>ScriptName = ''b'', Rate = 5, Failed = 1, Succeeded = 50, Latencies = Some 1\<rparr>)],
       wFailedByErrorGroup = []\<rparr>])) \<and>
   (\<exists>hp' r'. AddAll listHdr
     [\<lparr>wScripts = [(''b'', \<lparr>ScriptName = ''b'', Rate = 5, Failed = 1, Succeeded = 50, Latencies = Some 1\<rparr>)],
       wFailedByErrorGroup = []\<rparr>,
      \<lparr>wScripts = [(''a'', \<lparr>ScriptName = ''a'', Rate = 10, Failed = 0, Succeeded = 100, Latencies = Some 0\<rparr>)],
       wFailedByErrorGroup = []\<rparr>]
     ([[3, 4], [5]], NewResult ''db'' ''s'') = Inr (hp', r') \<and>
     TotalSucceeded r' = 150 \<and> TotalFailed r' = 1 \<and> TotalRate r' = 15)"
  using totals_over_disjoint_contributions [where hdr = listHdr and hp = "[[3, 4], [5]]"
      and db = "''db''" and sc = "''s''"
      and ws = "[\<lparr>wScripts = [(''a'', \<lparr>ScriptName = ''a'', Rate = 10, Failed = 0, Succeeded = 100, Latencies = Some 0\<rparr>)],
       wFailedByErrorGroup = []\<rparr>,
      \<lparr>wScripts = [(''b'', \<lparr>ScriptName = ''b'', Rate = 5, Failed = 1, Succeeded = 50, Latencies = Some 1\<rparr>)],
       wFailedByErrorGroup = []\<rparr>]"
      and ws' = "[\<lparr>wScripts = [(''b'', \<lparr>ScriptName = ''b'', Rate = 5, Failed = 1, Succeeded = 50, Latencies = Some 1\<rparr>)],
       wFailedByErrorGroup = []\<rparr>,
      \<lparr>wScripts = [(''a'', \<lparr>ScriptName = ''a'', Rate = 10, Failed = 0, Succeeded = 100, Latencies = Some 0\<rparr>)],
       wFailedByErrorGroup = []\<rparr>]"]
  by (simp add: live_def deref_def add.commute)

section \<open>Properties of the output\<close>

subsection \<open>Progress of the initialisation\<close>

lemma Seconds_Sub_less_10: "Seconds (Sub now before) < 10 \<longleftrightarrow> now - before < 10000000000"
  by (simp add: Seconds_def Sub_def Let_def)

lemma ReportInitProgress_suppressed:
  assumes "Section report = Section (LastProgressReport this)"
    and "Step report = Step (LastProgressReport this)"
    and "now - LastProgressTime this < 10000000000"
  shows "InteractiveOutput_ReportInitProgress lib now report (this, tr) = Inr (this, tr)"
  using assms by (simp add: InteractiveOutput_ReportInitProgress_def Seconds_Sub_less_10)

lemma ReportInitProgress_emitted:
  assumes "Section report \<noteq> Section (LastProgressReport this) \<or>
           Step report \<noteq> Step (LastProgressReport this) \<or>
           10000000000 \<le> now - LastProgressTime this"
  shows "InteractiveOutput_ReportInitProgress lib now report (this, tr) =
     (let line = ''['' @ Section report @ ''][''  @ Step report @ ''] '' @
                 fmt_f2 lib (Completeness report * 100) @ ''%\<newline>''
      in if accepts lib tr (ErrStream this) line
         then Inr (this\<lparr>LastProgressReport := report, LastProgressTime := now\<rparr>,
                   tr @ [(ErrStream this, line)])
         else Inl WriteFailed)"
  using assms
  by (auto simp add: InteractiveOutput_ReportInitProgress_def Seconds_Sub_less_10 Fprint_def Let_def)

lemma ReportInitProgress_twice:
  assumes pair: "Section r1 = ''load''" "Step r1 = ''nodes''" "Section r2 = ''load''" "Step r2 = ''nodes''"
    and near: "t2 - t1 < 1000000000"
    and ok: "accepts lib tr e (''[load][nodes] '' @ fmt_f2 lib (Completeness r1 * 100) @ ''%\<newline>'')"
  shows "(case InteractiveOutput_ReportInitProgress lib t1 r1
            (\<lparr>ErrStream = e, OutStream = o',
              LastProgressReport = \<lparr>Section = [], Step = [], Completeness = 0\<rparr>,
              LastProgressTime = 0\<rparr>, tr) of
          Inl p \<Rightarrow> Inl p
        | Inr st \<Rightarrow> InteractiveOutput_ReportInitProgress lib t2 r2 st) =
         Inr (\<lparr>ErrStream = e, OutStream = o', LastProgressReport = r1, LastProgressTime = t1\<rparr>,
              tr @ [(e, ''[load][nodes] '' @ fmt_f2 lib (Completeness r1 * 100) @ ''%\<newline>'')])"
proof -
  let ?o0 = "\<lparr>ErrStream = e, OutStream = o',
              LastProgressReport = \<lparr>Section = [], Step = [], Completeness = 0\<rparr>,
              LastProgressTime = 0\<rparr>"
  let ?o1 = "\<lparr>ErrStream = e, OutStream = o', LastProgressReport = r1, LastProgressTime = t1\<rparr>"
  let ?tr1 = "tr @ [(e, ''[load][nodes] '' @ fmt_f2 lib (Completeness r1 * 100) @ ''%\<newline>'')]"
  have "Section r1 \<noteq> Section (LastProgressReport ?o0) \<or>
        Step r1 \<noteq> Step (LastProgressReport ?o0) \<or>
        10000000000 \<le> t1 - LastProgressTime ?o0"
    using pair by simp
  from ReportInitProgress_emitted [OF this, of lib tr] pair ok
  have first: "InteractiveOutput_ReportInitProgress lib t1 r1 (?o0, tr) = Inr (?o1, ?tr1)"
    by (simp add: Let_def)
  have "InteractiveOutput_ReportInitProgress lib t2 r2 (?o1, ?tr1) = Inr (?o1, ?tr1)"
    using pair near by (intro ReportInitProgress_suppressed) simp_all
  with first show ?thesis by simp
qed

text \<open>
  C6. A call of \<open>ReportInitProgress\<close> whose \<open>Section\<close> and \<open>Step\<close> are those of the last report
  written, less than 10 seconds (10000000000 ns) after it, writes nothing and leaves the
  renderer as it is. A call whose \<open>Section\<close> or \<open>Step\<close> differs writes its line to
  \<open>ErrStream\<close> whatever the time, and is then the last report (it panics when the writer
  refuses the line). On a new renderer, two calls for (load, nodes) within a second of each
  other write one line, the first.
\<close>

theorem ReportInitProgress_rate_limit:
  "(Section report = Section (LastProgressReport this) \<and>
    Step report = Step (LastProgressReport this) \<and>
    now - LastProgressTime this < 10000000000 \<longrightarrow>
      InteractiveOutput_ReportInitProgress lib now report (this, tr) = Inr (this, tr)) \<and>
   (Section report \<noteq> Section (LastProgressReport this) \<or>
    Step report \<noteq> Step (LastProgressReport this) \<longrightarrow>
      InteractiveOutput_ReportInitProgress lib now report (this, tr) =
        (let line = ''['' @ Section report @ ''][''  @ Step report @ ''] '' @
                    fmt_f2 lib (Completeness report * 100) @ ''%\<newline>''
         in if accepts lib tr (ErrStream this) line
            then Inr (this\<lparr>LastProgressReport := report, LastProgressTime := now\<rparr>,
                      tr @ [(ErrStream this, line)])
            else Inl WriteFailed)) \<and>
   (Section r1 = ''load'' \<and> Step r1 = ''nodes'' \<and> Section r2 = ''load'' \<and> Step r2 = ''nodes'' \<and>
    \<bar>t2 - t1\<bar> < 1000000000 \<and>
    accepts lib tr e (''[load][nodes] '' @ fmt_f2 lib (Completeness r1 * 100) @ ''%\<newline>'') \<longrightarrow>
      (case InteractiveOutput_ReportInitProgress lib t1 r1
              (\<lparr>ErrStream = e, OutStream = d,
                LastProgressReport = \<lparr>Section = [], Step = [], Completeness = 0\<rparr>,
                LastProgressTime = 0\<rparr>, tr) of
         Inl p \<Rightarrow> Inl p
       | Inr st \<Rightarrow> InteractiveOutput_ReportInitProgress lib t2 r2 st) =
      Inr (\<lparr>ErrStream = e, OutStream = d, LastProgressReport = r1, LastProgressTime = t1\<rparr>,
           tr @ [(e, ''[load][nodes] '' @ fmt_f2 lib (Completeness r1 * 100) @ ''%\<newline>'')]))"
proof (intro conjI impI)
  assume "Section report = Section (LastProgressReport this) \<and>
    Step report = Step (LastProgressReport this) \<and>
    now - LastProgressTime this < 10000000000"
  then show "InteractiveOutput_ReportInitProgress lib now report (this, tr) = Inr (this, tr)"
    by (simp add: ReportInitProgress_suppressed)
next
  assume "Section report \<noteq> Section (LastProgressReport this) \<or>
    Step report \<noteq> Step (LastProgressReport this)"
  then have "Section report \<noteq> Section (LastProgressReport this) \<or>
    Step report \<noteq> Step (LastProgressReport this) \<or>
    10000000000 \<le> now - LastProgressTime this"
    by blast
  then show "InteractiveOutput_ReportInitProgress lib now report (this, tr) =
        (let line = ''['' @ Section report @ ''][''  @ Step report @ ''] '' @
                    fmt_f2 lib (Completeness report * 100) @ ''%\<newline>''
         in if accepts lib tr (ErrStream this) line
            then Inr (this\<lparr>LastProgressReport := report, LastProgressTime := now\<rparr>,
                      tr @ [(ErrStream this, line)])
            else Inl WriteFailed)"
    by (rule ReportInitProgress_emitted)
next
  assume a: "Section r1 = ''load'' \<and> Step r1 = ''nodes'' \<and> Section r2 = ''load'' \<and>
    Step r2 = ''nodes'' \<and> \<bar>t2 - t1\<bar> < 1000000000 \<and>
    accepts lib tr e (''[load][nodes] '' @ fmt_f2 lib (Completeness r1 * 100) @ ''%\<newline>'')"
  then have "t2 - t1 < 1000000000" by linarith
  with a show "(case InteractiveOutput_ReportInitProgress lib t1 r1
              (\<lparr>ErrStream = e, OutStream = d,
                LastProgressReport = \<lparr>Section = [], Step = [], Completeness = 0\<rparr>,
                LastProgressTime = 0\<rparr>, tr) of
         Inl p \<Rightarrow> Inl p
       | Inr st \<Rightarrow> InteractiveOutput_ReportInitProgress lib t2 r2 st) =
      Inr (\<lparr>ErrStream = e, OutStream = d, LastProgressReport = r1, LastProgressTime = t1\<rparr>,
           tr @ [(e, ''[load][nodes] '' @ fmt_f2 lib (Completeness r1 * 100) @ ''%\<newline>'')])"
    by (intro ReportInitProgress_twice) simp_all
qed

theorem ReportInitProgress_rate_limit_witness:
  "InteractiveOutput_ReportInitProgress demoLib 7000000000
     \<lparr>Section = ''load'', Step = ''nodes'', Completeness = 1 / 2\<rparr>
     (\<lparr>ErrStream = Stderr, OutStream = Stdout,
       LastProgressReport = \<lparr>Section = ''load'', Step = ''nodes'', Completeness = 1 / 4\<rparr>,
       LastProgressTime = 6500000000\<rparr>, [(Stderr, ''[load][nodes] 25.00%\<newline>'')]) =
   Inr (\<lparr>ErrStream = Stderr, OutStream = Stdout,
       LastProgressReport = \<lparr>Section = ''load'', Step = ''nodes'', Completeness = 1 / 4\<rparr>,
       LastProgressTime = 6500000000\<rparr>, [(Stderr, ''[load][nodes] 25.00%\<newline>'')]) \<and>
   InteractiveOutput_ReportInitProgress demoLib 7000000000
     \<lparr>Section = ''load'', Step = ''edges'', Completeness = 0\<rparr>
     (\<lparr>ErrStream = Stderr, OutStream = Stdout,
       LastProgressReport = \<lparr>Section = ''load'', Step = ''nodes'', Completeness = 1 / 4\<rparr>,
       LastProgressTime = 6500000000\<rparr>, []) =
   Inr (\<lparr>ErrStream = Stderr, OutStream = Stdout,
       LastProgressReport = \<lparr>Section = ''load'', Step = ''edges'', Completeness = 0\<rparr>,
       LastProgressTime = 7000000000\<rparr>, [(Stderr, ''[load][edges] 0.00%\<newline>'')]) \<and>
   (case InteractiveOutput_ReportInitProgress demoLib 6500000000
           \<lparr>Section = ''load'', Step = ''nodes'', Completeness = 1 / 4\<rparr>
           (\<lparr>ErrStream = Stderr, OutStream = Stdout,
             LastProgressReport = \<lparr>Section = [], Step = [], Completeness = 0\<rparr>,
             LastProgressTime = 0\<rparr>, []) of
      Inl p \<Rightarrow> Inl p
    | Inr st \<Rightarrow> InteractiveOutput_ReportInitProgress demoLib 7000000000
           \<lparr>Section = ''load'', Step = ''nodes'', Completeness = 1 / 2\<rparr> st) =
   Inr (\<lparr>ErrStream = Stderr, OutStream = Stdout,
       LastProgressReport = \<lparr>Section = ''load'', Step = ''nodes'', Completeness = 1 / 4\<rparr>,
       LastProgressTime = 6500000000\<rparr>, [(Stderr, ''[load][nodes] 25.00%\<newline>'')])"
proof -
  let ?r1 = "\<lparr>Section = ''load'', Step = ''nodes'', Completeness = 1 / 4\<rparr>"
  let ?r2 = "\<lparr>Section = ''load'', Step = ''nodes'', Completeness = 1 / 2\<rparr>"
  let ?r3 = "\<lparr>Section = ''load'', Step = ''edges'', Completeness = 0\<rparr>"
  let ?o1 = "\<lparr>ErrStream = Stderr, OutStream = Stdout, LastProgressReport = ?r1,
              LastProgressTime = 6500000000\<rparr>"
  have f2: "fmt_f2 (demoLib :: os_file lib) 25 = ''25.00''"
    "fmt_f2 (demoLib :: os_file lib) 0 = ''0.00''"
    by (simp_all add: demoLib_def show_fixed_def show_nat.simps digit_def upt_rec)
  have ok: "\<And>tr w s. accepts (demoLib :: os_file lib) tr w s"
    by (simp add: demoLib_def)
  note same = ReportInitProgress_rate_limit [where lib = "demoLib :: os_file lib"
      and now = 7000000000 and report = ?r2 and this = ?o1
      and tr = "[(Stderr, ''[load][nodes] 25.00%\<newline>'')]", THEN conjunct1, THEN mp]
  note other = ReportInitProgress_rate_limit [where lib = "demoLib :: os_file lib"
      and now = 7000000000 and report = ?r3 and this = ?o1 and tr = "[]",
      THEN conjunct2, THEN conjunct1, THEN mp]
  note twice = ReportInitProgress_rate_limit [where lib = "demoLib :: os_file lib"
      and ?r1.0 = ?r1 and ?r2.0 = ?r2 and ?t1.0 = 6500000000 and ?t2.0 = 7000000000
      and tr = "[]" and e = Stderr and d = Stdout, THEN conjunct2, THEN conjunct2, THEN mp]
  have c1: "InteractiveOutput_ReportInitProgress demoLib 7000000000 ?r2
     (?o1, [(Stderr, ''[load][nodes] 25.00%\<newline>'')]) =
     Inr (?o1, [(Stderr, ''[load][nodes] 25.00%\<newline>'')])"
    by (rule same) simp
  have c2: "InteractiveOutput_ReportInitProgress demoLib 7000000000 ?r3 (?o1, []) =
     Inr (\<lparr>ErrStream = Stderr, OutStream = Stdout, LastProgressReport = ?r3,
           LastProgressTime = 7000000000\<rparr>, [(Stderr, ''[load][edges] 0.00%\<newline>'')])"
    using other by (simp add: ok f2)
  have c3: "(case InteractiveOutput_ReportInitProgress demoLib 6500000000 ?r1
           (\<lparr>ErrStream = Stderr, OutStream = Stdout,
             LastProgressReport = \<lparr>Section = [], Step = [], Completeness = 0\<rparr>,
             LastProgressTime = 0\<rparr>, []) of
      Inl p \<Rightarrow> Inl p
    | Inr st \<Rightarrow> InteractiveOutput_ReportInitProgress demoLib 7000000000 ?r2 st) =
   Inr (?o1, [(Stderr, ''[load][nodes] 25.00%\<newline>'')])"
    using twice by (simp add: ok f2)
  from c1 c2 c3 show ?thesis by (intro conjI)
qed

subsection \<open>The error summary\<close>

lemma foldl_append_concat: "foldl (@) s xs = s @ concat xs"
  by (induction xs arbitrary: s) simp_all

lemma writeErrorReport_strings_none:
  "TotalFailed r = 0 \<Longrightarrow>
   writeErrorReport_strings lib r = [''Error stats:\<newline>'', ''  No errors!\<newline>'']"
  by (simp add: writeErrorReport_strings_def)

lemma writeErrorReport_strings_some:
  "TotalFailed r \<noteq> 0 \<Longrightarrow>
   writeErrorReport_strings lib r =
     [''Error stats:\<newline>'',
      ''  Failed transactions: '' @ fmt_d lib (TotalFailed r) @ '' ('' @
        fmt_f3 lib (100 * real_of_int (sint (TotalFailed r)) /
                    real_of_int (sint (TotalFailed r + TotalSucceeded r))) @ '' %)\<newline>'',
      ''\<newline>'',
      ''  Causes:\<newline>''] @
     concat (map (\<lambda>ni.
         [''    '' @ fst ni @ '': '' @ fmt_d lib (Count (snd ni)) @ '' failures\<newline>'',
          ''      (ex: '' @ FirstFailure (snd ni) @ '')\<newline>''])
       (FailedByErrorGroup r))"
  by (simp add: writeErrorReport_strings_def)

lemma length_group_lines:
  "length (concat (map (\<lambda>ni. [f ni, g ni]) groups)) = 2 * length groups"
  by (induction groups) simp_all

text \<open>
  C7. The strings \<open>writeErrorReport\<close> writes are the heading and \<open>No errors!\<close>, with no
  causes section, exactly when \<open>TotalFailed\<close> is 0. Otherwise they are the heading, the
  line of the failed count and the percentage failed / (failed + succeeded) * 100, an
  empty line, the heading of the causes, and for every failure group a line of its
  name and count and a line of its \<open>FirstFailure\<close>. The percentage is read where
  failed + succeeded is not 0 (Go divides by zero to an infinity there).
\<close>

theorem error_summary:
  "(TotalFailed r = 0 \<longleftrightarrow>
      writeErrorReport_strings lib r = [''Error stats:\<newline>'', ''  No errors!\<newline>'']) \<and>
   (TotalFailed r = 0 \<longleftrightarrow> ''  Causes:\<newline>'' \<notin> set (writeErrorReport_strings lib r)) \<and>
   (TotalFailed r \<noteq> 0 \<longrightarrow>
      (\<exists>failed. writeErrorReport_strings lib r =
          [''Error stats:\<newline>'', failed, ''\<newline>'', ''  Causes:\<newline>''] @
          concat (map (\<lambda>ni.
              [''    '' @ fst ni @ '': '' @ fmt_d lib (Count (snd ni)) @ '' failures\<newline>'',
               ''      (ex: '' @ FirstFailure (snd ni) @ '')\<newline>''])
            (FailedByErrorGroup r)) \<and>
         (TotalFailed r + TotalSucceeded r \<noteq> 0 \<longrightarrow>
            failed = ''  Failed transactions: '' @ fmt_d lib (TotalFailed r) @ '' ('' @
              fmt_f3 lib (real_of_int (sint (TotalFailed r)) /
                          real_of_int (sint (TotalFailed r + TotalSucceeded r)) * 100) @
              '' %)\<newline>'')) \<and>
      length (writeErrorReport_strings lib r) = 4 + 2 * length (FailedByErrorGroup r)) \<and>
   writeErrorReport lib r s = s @ concat (writeErrorReport_strings lib r)"
proof (intro conjI)
  show "TotalFailed r = 0 \<longleftrightarrow>
      writeErrorReport_strings lib r = [''Error stats:\<newline>'', ''  No errors!\<newline>'']"
    by (cases "TotalFailed r = 0")
      (simp_all add: writeErrorReport_strings_none writeErrorReport_strings_some)
next
  show "TotalFailed r = 0 \<longleftrightarrow> ''  Causes:\<newline>'' \<notin> set (writeErrorReport_strings lib r)"
    by (cases "TotalFailed r = 0")
      (simp_all add: writeErrorReport_strings_none writeErrorReport_strings_some)
next
  show "TotalFailed r \<noteq> 0 \<longrightarrow>
      (\<exists>failed. writeErrorReport_strings lib r =
          [''Error stats:\<newline>'', failed, ''\<newline>'', ''  Causes:\<newline>''] @
          concat (map (\<lambda>ni.
              [''    '' @ fst ni @ '': '' @ fmt_d lib (Count (snd ni)) @ '' failures\<newline>'',
               ''      (ex: '' @ FirstFailure (snd ni) @ '')\<newline>''])
            (FailedByErrorGroup r)) \<and>
         (TotalFailed r + TotalSucceeded r \<noteq> 0 \<longrightarrow>
            failed = ''  Failed transactions: '' @ fmt_d lib (TotalFailed r) @ '' ('' @
              fmt_f3 lib (real_of_int (sint (TotalFailed r)) /
                          real_of_int (sint (TotalFailed r + TotalSucceeded r)) * 100) @
              '' %)\<newline>'')) \<and>
      length (writeErrorReport_strings lib r) = 4 + 2 * length (FailedByErrorGroup r)"
    by (simp add: writeErrorReport_strings_some length_group_lines mult.commute)
next
  show "writeErrorReport lib r s = s @ concat (writeErrorReport_strings lib r)"
    by (simp add: writeErrorReport_def foldl_append_concat)
qed

theorem error_summary_witness:
  "TotalFailed (NewResult ''neo4j'' ''-w tx'') = 0 \<and>
   writeErrorReport (demoLib :: os_file lib) (NewResult ''neo4j'' ''-w tx'') [] =
     ''Error stats:\<newline>  No errors!\<newline>'' \<and>
   TotalFailed \<lparr>DatabaseName = ''neo4j'', Scenario = ''-w tx'',
      FailedByErrorGroup = [(''timeout'', \<lparr>Count = 1, FirstFailure = ''connection timed out''\<rparr>)],
      Scripts = [(''tx'', \<lparr>ScriptName = ''tx'', Rate = 2, Failed = 1, Succeeded = 3,
                          Latencies = Some 0\<rparr>)]\<rparr> \<noteq> 0 \<and>
   writeErrorReport_strings (demoLib :: os_file lib) \<lparr>DatabaseName = ''neo4j'', Scenario = ''-w tx'',
      FailedByErrorGroup = [(''timeout'', \<lparr>Count = 1, FirstFailure = ''connection timed out''\<rparr>)],
      Scripts = [(''tx'', \<lparr>ScriptName = ''tx'', Rate = 2, Failed = 1, Succeeded = 3,
                          Latencies = Some 0\<rparr>)]\<rparr> =
     [''Error stats:\<newline>'',
      ''  Failed transactions: 1 (25.000 %)\<newline>'',
      ''\<newline>'',
      ''  Causes:\<newline>'',
      ''    timeout: 1 failures\<newline>'',
      ''      (ex: connection timed out)\<newline>'']"
proof -
  let ?new = "NewResult ''neo4j'' ''-w tx''"
  let ?res = "\<lparr>DatabaseName = ''neo4j'', Scenario = ''-w tx'',
      FailedByErrorGroup = [(''timeout'', \<lparr>Count = 1, FirstFailure = ''connection timed out''\<rparr>)],
      Scripts = [(''tx'', \<lparr>ScriptName = ''tx'', Rate = 2, Failed = 1, Succeeded = 3,
                          Latencies = Some 0\<rparr>)]\<rparr>"
  have t0: "TotalFailed ?new = 0"
    by (simp add: TotalFailed_def NewResult_def)
  have t1: "TotalFailed ?res = 1" and s1: "TotalSucceeded ?res = 3"
    by (simp_all add: TotalFailed_def TotalSucceeded_def)
  have fmt: "fmt_d (demoLib :: os_file lib) (1 :: int64) = ''1''" "fmt_f3 (demoLib :: os_file lib) 25 = ''25.000''"
    by (simp_all add: demoLib_def show_int_def show_fixed_def show_nat.simps digit_def upt_rec)
  note none = error_summary [where r = ?new and lib = "demoLib :: os_file lib" and s = "[]"]
  note some = error_summary [where r = ?res and lib = "demoLib :: os_file lib"]
  from none t0 have c0: "writeErrorReport (demoLib :: os_file lib) ?new [] = ''Error stats:\<newline>  No errors!\<newline>''"
    by auto
  have nz: "TotalFailed ?res \<noteq> 0" "TotalFailed ?res + TotalSucceeded ?res \<noteq> 0"
    by (simp_all add: t1 s1)
  from some [THEN conjunct2, THEN conjunct2, THEN conjunct1, THEN mp, OF nz(1)] nz(2)
  have c1: "writeErrorReport_strings (demoLib :: os_file lib) ?res =
     [''Error stats:\<newline>'',
      ''  Failed transactions: 1 (25.000 %)\<newline>'',
      ''\<newline>'',
      ''  Causes:\<newline>'',
      ''    timeout: 1 failures\<newline>'',
      ''      (ex: connection timed out)\<newline>'']"
    by (auto simp add: t1 s1 fmt)
  from t0 c0 nz(1) c1 show ?thesis by (intro conjI)
qed

subsection \<open>The table of columns\<close>

lemma csvColumns_names:
  "map fst (csvColumns lib hdr hp) =
     [''db'', ''script'', ''rate'', ''succeeded'', ''failed'', ''mean'', ''stdev'', ''p0'',
      ''p25'', ''p50'', ''p75'', ''p99'', ''p99999'', ''p100'']"
  by (simp add: csvColumns_def)

lemma foldl_names: "foldl (\<lambda>names col. names @ [fst col]) acc cols = acc @ map fst cols"
  by (induction cols arbitrary: acc) simp_all

lemma header_line:
  "Join (foldl (\<lambda>names col. names @ [fst col]) [] (csvColumns lib hdr hp)) '','' @ ''\<newline>'' =
     ''db,script,rate,succeeded,failed,mean,stdev,p0,p25,p50,p75,p99,p99999,p100\<newline>''"
  by (simp add: foldl_names csvColumns_names)

lemma csvColumns_values:
  assumes "deref hp (Latencies s) = Some h"
  shows "map (\<lambda>col. snd col r s) (csvColumns lib hdr hp) =
     map Inr
       [[CHR 0x22] @ DatabaseName r @ [CHR 0x22],
        [CHR 0x22] @ ScriptName s @ [CHR 0x22],
        fmt_f3 lib (Rate s),
        fmt_f3 lib (real_of_int (sint (hdrTotalCount hdr h))),
        fmt_f3 lib (real_of_int (sint (Failed s))),
        fmt_f3 lib (hdrMean hdr h / 1000),
        fmt_f3 lib (hdrStdDev hdr h),
        fmt_f3 lib (real_of_int (sint (hdrMin hdr h)) / 1000),
        fmt_f3 lib (real_of_int (sint (hdrValueAtQuantile hdr h 25)) / 1000),
        fmt_f3 lib (real_of_int (sint (hdrValueAtQuantile hdr h 50)) / 1000),
        fmt_f3 lib (real_of_int (sint (hdrValueAtQuantile hdr h 75)) / 1000),
        fmt_f3 lib (real_of_int (sint (hdrValueAtQuantile hdr h 99)) / 1000),
        fmt_f3 lib (real_of_int (sint (hdrValueAtQuantile hdr h 99.999)) / 1000),
        fmt_f3 lib (real_of_int (sint (hdrMax hdr h)) / 1000)]"
  using assms by (simp add: csvColumns_def ofLatencies_def fmtFloat_def)

lemma writeColumns_values:
  "map (\<lambda>col. snd col r s) cols = map Inr cells \<Longrightarrow>
   writeColumns r s i cols acc =
     Inr (acc @ (if i \<noteq> 0 \<and> cells \<noteq> [] then '','' else []) @ Join cells '','')"
proof (induction cells arbitrary: cols i acc)
  case Nil
  then show ?case by simp
next
  case (Cons c cells)
  then obtain col cols' where cols: "cols = col # cols'" and c: "snd col r s = Inr c"
    and rest: "map (\<lambda>col. snd col r s) cols' = map Inr cells"
    by (cases cols) auto
  from Cons.IH [OF rest, of "Suc i"] cols c show ?case
    by (cases cells) (simp_all add: Let_def)
qed

lemma row_of_script:
  assumes "deref hp (Latencies s) = Some h"
  shows "writeColumns r s 0 (csvColumns lib hdr hp) acc =
     Inr (acc @ Join
       [[CHR 0x22] @ DatabaseName r @ [CHR 0x22],
        [CHR 0x22] @ ScriptName s @ [CHR 0x22],
        fmt_f3 lib (Rate s),
        fmt_f3 lib (real_of_int (sint (hdrTotalCount hdr h))),
        fmt_f3 lib (real_of_int (sint (Failed s))),
        fmt_f3 lib (hdrMean hdr h / 1000),
        fmt_f3 lib (hdrStdDev hdr h),
        fmt_f3 lib (real_of_int (sint (hdrMin hdr h)) / 1000),
        fmt_f3 lib (real_of_int (sint (hdrValueAtQuantile hdr h 25)) / 1000),
        fmt_f3 lib (real_of_int (sint (hdrValueAtQuantile hdr h 50)) / 1000),
        fmt_f3 lib (real_of_int (sint (hdrValueAtQuantile hdr h 75)) / 1000),
        fmt_f3 lib (real_of_int (sint (hdrValueAtQuantile hdr h 99)) / 1000),
        fmt_f3 lib (real_of_int (sint (hdrValueAtQuantile hdr h 99.999)) / 1000),
        fmt_f3 lib (real_of_int (sint (hdrMax hdr h)) / 1000)] '','')"
  using writeColumns_values [OF csvColumns_values [OF assms], where i = 0 and acc = acc] by simp

lemma BenchmarkStart_writes:
  "CsvOutput_BenchmarkStart lib hdr hp databaseName url scenario (this, tr) =
     (let banner = ''Starting workload on database '' @
                   (if databaseName = [] then ''<default>'' else databaseName) @
                   '' against '' @ url @ ''\<newline>'' @ ''Scenario: '' @ scenario @ ''\<newline>'';
          header = ''db,script,rate,succeeded,failed,mean,stdev,p0,p25,p50,p75,p99,p99999,p100\<newline>''
      in if \<not> accepts lib tr (csvErrStream this) banner then Inl WriteFailed
         else if \<not> accepts lib (tr @ [(csvErrStream this, banner)]) (csvOutStream this) header
         then Inl WriteFailed
         else Inr (this, tr @ [(csvErrStream this, banner), (csvOutStream this, header)]))"
  unfolding CsvOutput_BenchmarkStart_def Let_def header_line
  by (simp add: Fprint_def)

lemma BenchmarkStart_Inr:
  assumes "CsvOutput_BenchmarkStart lib hdr hp databaseName url scenario (this, tr) = Inr (this', tr')"
  shows "\<exists>banner. tr' = tr @ [(csvErrStream this, banner),
      (csvOutStream this,
        ''db,script,rate,succeeded,failed,mean,stdev,p0,p25,p50,p75,p99,p99999,p100\<newline>'')]"
  using assms unfolding CsvOutput_BenchmarkStart_def Let_def header_line Fprint_def
  by (auto split: if_splits sum.splits)

lemma foldl_indent: "foldl (\<lambda>s line. s @ indent @ line) acc lines = acc @ concat (map ((@) indent) lines)"
  by (induction lines arbitrary: acc) simp_all

lemma summarizeLatency_lines:
  assumes "deref hp (Latencies script) = Some histo"
  shows "summarizeLatency lib hdr hp script acc indent =
     Inr (acc @ concat (map ((@) indent)
       [fmt_d lib (Succeeded script) @ '' successful transactions, '' @
          fmt_d lib (Failed script) @ '' failed. (Total of '' @
          fmt_f3 lib (Rate script) @ '' per second)\<newline>'',
        ''Max: '' @ fmt_f3 lib (real_of_int (sint (hdrMax hdr histo)) / 1000) @
          ''ms, Min: '' @ fmt_f3 lib (real_of_int (sint (hdrMin hdr histo)) / 1000) @
          ''ms, Mean: '' @ fmt_f3 lib (hdrMean hdr histo / 1000) @
          ''ms, Stddev: '' @ fmt_f3 lib (hdrStdDev hdr histo / 1000) @
          ''\<newline>\<newline>'',
        ''Latency distribution:\<newline>'',
        ''  P00.000: '' @ fmt_f3 lib (real_of_int (sint (hdrMin hdr histo)) / 1000) @ ''ms\<newline>'',
        ''  P25.000: '' @ fmt_f3 lib (real_of_int (sint (hdrValueAtQuantile hdr histo 25)) / 1000) @ ''ms\<newline>'',
        ''  P50.000: '' @ fmt_f3 lib (real_of_int (sint (hdrValueAtQuantile hdr histo 50)) / 1000) @ ''ms\<newline>'',
        ''  P75.000: '' @ fmt_f3 lib (real_of_int (sint (hdrValueAtQuantile hdr histo 75)) / 1000) @ ''ms\<newline>'',
        ''  P95.000: '' @ fmt_f3 lib (real_of_int (sint (hdrValueAtQuantile hdr histo 95)) / 1000) @ ''ms\<newline>'',
        ''  P99.000: '' @ fmt_f3 lib (real_of_int (sint (hdrValueAtQuantile hdr histo 99)) / 1000) @ ''ms\<newline>'',
        ''  P99.999: '' @ fmt_f3 lib (real_of_int (sint (hdrValueAtQuantile hdr histo 99.999)) / 1000) @ ''ms\<newline>'']))"
  using assms unfolding summarizeLatency_def Let_def foldl_indent by simp

text \<open>
  C5. The fourth column of the table is \<open>succeeded\<close>. For a script whose histogram \<open>h\<close> is
  there, its value, and so the fourth cell of the script's line, is \<open>fmtFloat\<close> of the
  number of samples of \<open>h\<close> (\<open>TotalCount\<close>), whatever \<open>Succeeded\<close> is. The two can differ:
  after \<open>Add\<close> of a contribution with \<open>Succeeded\<close> 100 and a histogram of three samples,
  the cell is the text for 3 and not the text for 100, for every \<open>%.3f\<close> that tells the
  two apart.
\<close>

theorem succeeded_column_counts_samples:
  "fst (csvColumns lib hdr hp ! 3) = ''succeeded'' \<and>
   (deref hp (Latencies s) = Some h \<longrightarrow>
      snd (csvColumns lib hdr hp ! 3) r s = Inr (fmtFloat lib (VInt64 (hdrTotalCount hdr h))) \<and>
      (\<exists>cells. writeColumns r s 0 (csvColumns lib hdr hp) acc = Inr (acc @ Join cells '','') \<and>
         length cells = 14 \<and> cells ! 3 = fmtFloat lib (VInt64 (hdrTotalCount hdr h)))) \<and>
   (fmt_f3 lib 3 \<noteq> fmt_f3 lib 100 \<longrightarrow>
      (\<exists>hp' r' s'.
         Add listHdr
           \<lparr>wScripts = [(''tx'', \<lparr>ScriptName = ''tx'', Rate = 10, Failed = 0, Succeeded = 100,
                                  Latencies = Some 0\<rparr>)], wFailedByErrorGroup = []\<rparr>
           ([[7, 8, 9]], NewResult db sc) = Inr (hp', r') \<and>
         Scripts r' = [(''tx'', s')] \<and>
         snd (csvColumns lib listHdr hp' ! 3) r' s' \<noteq> Inr (fmtFloat lib (VInt64 (Succeeded s')))))"
proof (intro conjI impI)
  show "fst (csvColumns lib hdr hp ! 3) = ''succeeded''"
    by (simp add: csvColumns_def)
next
  assume h: "deref hp (Latencies s) = Some h"
  then show "snd (csvColumns lib hdr hp ! 3) r s = Inr (fmtFloat lib (VInt64 (hdrTotalCount hdr h)))"
    by (simp add: csvColumns_def ofLatencies_def)
  from row_of_script [OF h, of r lib hdr acc]
  show "\<exists>cells. writeColumns r s 0 (csvColumns lib hdr hp) acc = Inr (acc @ Join cells '','') \<and>
         length cells = 14 \<and> cells ! 3 = fmtFloat lib (VInt64 (hdrTotalCount hdr h))"
    by (intro exI [of _ "[[CHR 0x22] @ DatabaseName r @ [CHR 0x22],
        [CHR 0x22] @ ScriptName s @ [CHR 0x22],
        fmt_f3 lib (Rate s),
        fmt_f3 lib (real_of_int (sint (hdrTotalCount hdr h))),
        fmt_f3 lib (real_of_int (sint (Failed s))),
        fmt_f3 lib (hdrMean hdr h / 1000),
        fmt_f3 lib (hdrStdDev hdr h),
        fmt_f3 lib (real_of_int (sint (hdrMin hdr h)) / 1000),
        fmt_f3 lib (real_of_int (sint (hdrValueAtQuantile hdr h 25)) / 1000),
        fmt_f3 lib (real_of_int (sint (hdrValueAtQuantile hdr h 50)) / 1000),
        fmt_f3 lib (real_of_int (sint (hdrValueAtQuantile hdr h 75)) / 1000),
        fmt_f3 lib (real_of_int (sint (hdrValueAtQuantile hdr h 99)) / 1000),
        fmt_f3 lib (real_of_int (sint (hdrValueAtQuantile hdr h 99.999)) / 1000),
        fmt_f3 lib (real_of_int (sint (hdrMax hdr h)) / 1000)]"])
      (simp add: fmtFloat_def)
next
  assume d: "fmt_f3 lib 3 \<noteq> fmt_f3 lib 100"
  let ?s' = "\<lparr>ScriptName = ''tx'', Rate = 10, Failed = 0, Succeeded = 100, Latencies = Some 1\<rparr>"
  let ?r' = "\<lparr>DatabaseName = db, Scenario = sc, FailedByErrorGroup = [], Scripts = [(''tx'', ?s')]\<rparr>"
  have run: "Add listHdr
           \<lparr>wScripts = [(''tx'', \<lparr>ScriptName = ''tx'', Rate = 10, Failed = 0, Succeeded = 100,
                                  Latencies = Some 0\<rparr>)], wFailedByErrorGroup = []\<rparr>
           ([[7, 8, 9]], NewResult db sc) = Inr ([[7, 8, 9], [7, 8, 9]], ?r')"
    by (simp add: Add_def addScript_def Import_Export_def deref_def NewResult_def listHdr_def)
  have "snd (csvColumns lib listHdr [[7, 8, 9], [7, 8, 9]] ! 3) ?r' ?s' = Inr (fmt_f3 lib 3)"
    by (simp add: csvColumns_def ofLatencies_def deref_def fmtFloat_def listHdr_def)
  with d have "snd (csvColumns lib listHdr [[7, 8, 9], [7, 8, 9]] ! 3) ?r' ?s' \<noteq>
      Inr (fmtFloat lib (VInt64 (Succeeded ?s')))"
    by (simp add: fmtFloat_def)
  with run show "\<exists>hp' r' s'.
         Add listHdr
           \<lparr>wScripts = [(''tx'', \<lparr>ScriptName = ''tx'', Rate = 10, Failed = 0, Succeeded = 100,
                                  Latencies = Some 0\<rparr>)], wFailedByErrorGroup = []\<rparr>
           ([[7, 8, 9]], NewResult db sc) = Inr (hp', r') \<and>
         Scripts r' = [(''tx'', s')] \<and>
         snd (csvColumns lib listHdr hp' ! 3) r' s' \<noteq> Inr (fmtFloat lib (VInt64 (Succeeded s')))"
    by (intro exI [of _ "[[7, 8, 9], [7, 8, 9]]"] exI [of _ ?r'] exI [of _ ?s']) simp
qed

theorem succeeded_column_counts_samples_witness:
  "deref [[7, 8, 9 :: int]] (Some 0) = Some [7, 8, 9] \<and>
   snd (csvColumns (demoLib :: os_file lib) listHdr [[7, 8, 9]] ! 3)
     (NewResult ''neo4j'' ''-w tx'')
     \<lparr>ScriptName = ''tx'', Rate = 10, Failed = 0, Succeeded = 100, Latencies = Some 0\<rparr> =
     Inr ''3.000'' \<and>
   fmtFloat (demoLib :: os_file lib) (VInt64 100) = ''100.000'' \<and>
   fmt_f3 (demoLib :: os_file lib) 3 \<noteq> fmt_f3 (demoLib :: os_file lib) 100 \<and>
   (\<exists>hp' r' s'.
      Add listHdr
        \<lparr>wScripts = [(''tx'', \<lparr>ScriptName = ''tx'', Rate = 10, Failed = 0, Succeeded = 100,
                               Latencies = Some 0\<rparr>)], wFailedByErrorGroup = []\<rparr>
        ([[7, 8, 9]], NewResult ''neo4j'' ''-w tx'') = Inr (hp', r') \<and>
      Scripts r' = [(''tx'', s')] \<and>
      snd (csvColumns (demoLib :: os_file lib) listHdr hp' ! 3) r' s' \<noteq>
        Inr (fmtFloat (demoLib :: os_file lib) (VInt64 (Succeeded s'))))"
proof -
  let ?lib = "demoLib :: os_file lib"
  let ?s = "\<lparr>ScriptName = ''tx'', Rate = 10, Failed = 0, Succeeded = 100, Latencies = Some 0\<rparr>"
  have d: "deref [[7, 8, 9 :: int]] (Some 0) = Some [7, 8, 9]"
    by (simp add: deref_def)
  have d': "deref [[7, 8, 9 :: int]] (Latencies ?s) = Some [7, 8, 9]"
    by (simp add: deref_def)
  have f: "fmt_f3 ?lib 3 = ''3.000''" "fmt_f3 ?lib 100 = ''100.000''"
    by (simp_all add: demoLib_def show_fixed_def show_nat.simps digit_def upt_rec)
  from succeeded_column_counts_samples [where lib = ?lib and hdr = listHdr and hp = "[[7, 8, 9]]"
      and s = ?s and h = "[7, 8, 9]" and r = "NewResult ''neo4j'' ''-w tx''",
      THEN conjunct2, THEN conjunct1, THEN mp, OF d', THEN conjunct1]
  have c: "snd (csvColumns ?lib listHdr [[7, 8, 9]] ! 3) (NewResult ''neo4j'' ''-w tx'') ?s =
     Inr ''3.000''"
    by (simp add: fmtFloat_def listHdr_def f)
  have e: "fmtFloat ?lib (VInt64 100) = ''100.000''"
    by (simp add: fmtFloat_def f)
  have n: "fmt_f3 ?lib 3 \<noteq> fmt_f3 ?lib 100"
    by (simp add: f)
  note differ = succeeded_column_counts_samples [where lib = ?lib and db = "''neo4j''"
      and sc = "''-w tx''", THEN conjunct2, THEN conjunct2, THEN mp, OF n]
  from d c e n differ show ?thesis by (intro conjI)
qed

text \<open>
  C9, as stated, names the seventh column \<open>stddev\<close>. The header that \<open>BenchmarkStart\<close>
  writes names it \<open>stdev\<close>: the line written is not the line of the stated names.
\<close>

theorem BenchmarkStart_header_counterexample:
  "CsvOutput_BenchmarkStart (demoLib :: os_file lib) listHdr [] ''neo4j'' ''bolt://localhost:7687''
     ''-w tx''
     (\<lparr>csvErrStream = Stderr, csvOutStream = Stdout,
       csvLastProgressReport = \<lparr>Section = [], Step = [], Completeness = 0\<rparr>,
       csvLastProgressTime = 0\<rparr>, []) =
   Inr (\<lparr>csvErrStream = Stderr, csvOutStream = Stdout,
         csvLastProgressReport = \<lparr>Section = [], Step = [], Completeness = 0\<rparr>,
         csvLastProgressTime = 0\<rparr>,
        [(Stderr, ''Starting workload on database neo4j against bolt://localhost:7687\<newline>Scenario: -w tx\<newline>''),
         (Stdout, ''db,script,rate,succeeded,failed,mean,stdev,p0,p25,p50,p75,p99,p99999,p100\<newline>'')]) \<and>
   ''db,script,rate,succeeded,failed,mean,stdev,p0,p25,p50,p75,p99,p99999,p100\<newline>'' \<noteq>
   Join [''db'', ''script'', ''rate'', ''succeeded'', ''failed'', ''mean'', ''stddev'', ''p0'',
         ''p25'', ''p50'', ''p75'', ''p99'', ''p99999'', ''p100''] '','' @ ''\<newline>''"
  by (simp add: BenchmarkStart_writes demoLib_def)

text \<open>
  C9, amended. \<open>CsvOutput.BenchmarkStart\<close> writes the line of the start to \<open>ErrStream\<close> and
  then one line to \<open>OutStream\<close>: the 14 names of the columns of the table, in its order,
  db, script, rate, succeeded, failed, mean, stdev, p0, p25, p50, p75, p99, p99999,
  p100, with commas between. It panics when a writer refuses its line. Where the two
  streams differ, what \<open>OutStream\<close> has received after the call is what it had received
  before and then this header: on a stream with nothing written, the header comes first.
\<close>

theorem BenchmarkStart_header:
  "CsvOutput_BenchmarkStart lib hdr hp databaseName url scenario (this, tr) =
     (let banner = ''Starting workload on database '' @
                   (if databaseName = [] then ''<default>'' else databaseName) @
                   '' against '' @ url @ ''\<newline>'' @ ''Scenario: '' @ scenario @ ''\<newline>'';
          header = ''db,script,rate,succeeded,failed,mean,stdev,p0,p25,p50,p75,p99,p99999,p100\<newline>''
      in if \<not> accepts lib tr (csvErrStream this) banner then Inl WriteFailed
         else if \<not> accepts lib (tr @ [(csvErrStream this, banner)]) (csvOutStream this) header
         then Inl WriteFailed
         else Inr (this, tr @ [(csvErrStream this, banner), (csvOutStream this, header)])) \<and>
   map fst (csvColumns lib hdr hp) =
     [''db'', ''script'', ''rate'', ''succeeded'', ''failed'', ''mean'', ''stdev'', ''p0'',
      ''p25'', ''p50'', ''p75'', ''p99'', ''p99999'', ''p100''] \<and>
   length (csvColumns lib hdr hp) = 14 \<and>
   (csvErrStream this \<noteq> csvOutStream this \<and>
    CsvOutput_BenchmarkStart lib hdr hp databaseName url scenario (this, tr) = Inr (that, out) \<longrightarrow>
      map snd (filter (\<lambda>e. fst e = csvOutStream this) out) =
        map snd (filter (\<lambda>e. fst e = csvOutStream this) tr) @
        [''db,script,rate,succeeded,failed,mean,stdev,p0,p25,p50,p75,p99,p99999,p100\<newline>''])"
proof (intro conjI impI)
  show "CsvOutput_BenchmarkStart lib hdr hp databaseName url scenario (this, tr) =
     (let banner = ''Starting workload on database '' @
                   (if databaseName = [] then ''<default>'' else databaseName) @
                   '' against '' @ url @ ''\<newline>'' @ ''Scenario: '' @ scenario @ ''\<newline>'';
          header = ''db,script,rate,succeeded,failed,mean,stdev,p0,p25,p50,p75,p99,p99999,p100\<newline>''
      in if \<not> accepts lib tr (csvErrStream this) banner then Inl WriteFailed
         else if \<not> accepts lib (tr @ [(csvErrStream this, banner)]) (csvOutStream this) header
         then Inl WriteFailed
         else Inr (this, tr @ [(csvErrStream this, banner), (csvOutStream this, header)]))"
    by (rule BenchmarkStart_writes)
next
  show "map fst (csvColumns lib hdr hp) =
     [''db'', ''script'', ''rate'', ''succeeded'', ''failed'', ''mean'', ''stdev'', ''p0'',
      ''p25'', ''p50'', ''p75'', ''p99'', ''p99999'', ''p100'']"
    by (rule csvColumns_names)
next
  show "length (csvColumns lib hdr hp) = 14"
    by (simp add: csvColumns_def)
next
  assume a: "csvErrStream this \<noteq> csvOutStream this \<and>
    CsvOutput_BenchmarkStart lib hdr hp databaseName url scenario (this, tr) = Inr (that, out)"
  then obtain banner where "out = tr @ [(csvErrStream this, banner),
      (csvOutStream this,
        ''db,script,rate,succeeded,failed,mean,stdev,p0,p25,p50,p75,p99,p99999,p100\<newline>'')]"
    using BenchmarkStart_Inr by blast
  with a show "map snd (filter (\<lambda>e. fst e = csvOutStream this) out) =
        map snd (filter (\<lambda>e. fst e = csvOutStream this) tr) @
        [''db,script,rate,succeeded,failed,mean,stdev,p0,p25,p50,p75,p99,p99999,p100\<newline>'']"
    by simp
qed

theorem BenchmarkStart_header_witness:
  "csvErrStream \<lparr>csvErrStream = Stderr, csvOutStream = Stdout,
       csvLastProgressReport = \<lparr>Section = [], Step = [], Completeness = 0\<rparr>,
       csvLastProgressTime = 0\<rparr> \<noteq>
   csvOutStream \<lparr>csvErrStream = Stderr, csvOutStream = Stdout,
       csvLastProgressReport = \<lparr>Section = [], Step = [], Completeness = 0\<rparr>,
       csvLastProgressTime = 0\<rparr> \<and>
   CsvOutput_BenchmarkStart (demoLib :: os_file lib) listHdr [] [] ''bolt://localhost:7687'' ''-w tx''
     (\<lparr>csvErrStream = Stderr, csvOutStream = Stdout,
       csvLastProgressReport = \<lparr>Section = [], Step = [], Completeness = 0\<rparr>,
       csvLastProgressTime = 0\<rparr>, []) =
   Inr (\<lparr>csvErrStream = Stderr, csvOutStream = Stdout,
         csvLastProgressReport = \<lparr>Section = [], Step = [], Completeness = 0\<rparr>,
         csvLastProgressTime = 0\<rparr>,
        [(Stderr, ''Starting workload on database <default> against bolt://localhost:7687\<newline>Scenario: -w tx\<newline>''),
         (Stdout, ''db,script,rate,succeeded,failed,mean,stdev,p0,p25,p50,p75,p99,p99999,p100\<newline>'')]) \<and>
   map snd (filter (\<lambda>e. fst e = Stdout)
        [(Stderr, ''Starting workload on database <default> against bolt://localhost:7687\<newline>Scenario: -w tx\<newline>''),
         (Stdout, ''db,script,rate,succeeded,failed,mean,stdev,p0,p25,p50,p75,p99,p99999,p100\<newline>'')]) =
     [''db,script,rate,succeeded,failed,mean,stdev,p0,p25,p50,p75,p99,p99999,p100\<newline>'']"
proof -
  let ?csv = "\<lparr>csvErrStream = Stderr, csvOutStream = Stdout,
       csvLastProgressReport = \<lparr>Section = [], Step = [], Completeness = 0\<rparr>,
       csvLastProgressTime = 0\<rparr>"
  let ?events = "[(Stderr, ''Starting workload on database <default> against bolt://localhost:7687\<newline>Scenario: -w tx\<newline>''),
         (Stdout, ''db,script,rate,succeeded,failed,mean,stdev,p0,p25,p50,p75,p99,p99999,p100\<newline>'')]"
  note inst = BenchmarkStart_header [where lib = "demoLib :: os_file lib" and hdr = listHdr
      and hp = "[]" and databaseName = "[]" and url = "''bolt://localhost:7687''"
      and scenario = "''-w tx''" and this = "?csv" and tr = "[]" and that = "?csv" and out = "?events"]
  have ne: "csvErrStream ?csv \<noteq> csvOutStream ?csv"
    by simp
  from inst [THEN conjunct1]
  have run: "CsvOutput_BenchmarkStart (demoLib :: os_file lib) listHdr [] []
      ''bolt://localhost:7687'' ''-w tx'' (?csv, []) = Inr (?csv, ?events)"
    by (simp add: demoLib_def)
  from inst [THEN conjunct2, THEN conjunct2, THEN conjunct2, THEN mp, OF conjI, OF ne run]
  have one: "map snd (filter (\<lambda>e. fst e = Stdout) ?events) =
     [''db,script,rate,succeeded,failed,mean,stdev,p0,p25,p50,p75,p99,p99999,p100\<newline>'']"
    by simp
  from ne run one show ?thesis by (intro conjI)
qed

text \<open>
  C10. For a script whose histogram \<open>h\<close> is there, the columns from the sixth on are:
  \<open>mean\<close>, the mean divided by 1000; \<open>stdev\<close>, the standard deviation as the histogram
  returns it; \<open>p0\<close> to \<open>p100\<close>, the minimum, the quantiles and the maximum, each divided by
  1000. The second line of \<open>summarizeLatency\<close> prints the standard deviation divided by
  1000, as it does the maximum, the minimum and the mean.
\<close>

theorem stdev_column_not_scaled:
  "deref hp (Latencies s) = Some h \<longrightarrow>
     map (\<lambda>col. (fst col, snd col r s)) (drop 5 (csvColumns lib hdr hp)) =
       [(''mean'', Inr (fmt_f3 lib (hdrMean hdr h / 1000))),
        (''stdev'', Inr (fmt_f3 lib (hdrStdDev hdr h))),
        (''p0'', Inr (fmt_f3 lib (real_of_int (sint (hdrMin hdr h)) / 1000))),
        (''p25'', Inr (fmt_f3 lib (real_of_int (sint (hdrValueAtQuantile hdr h 25)) / 1000))),
        (''p50'', Inr (fmt_f3 lib (real_of_int (sint (hdrValueAtQuantile hdr h 50)) / 1000))),
        (''p75'', Inr (fmt_f3 lib (real_of_int (sint (hdrValueAtQuantile hdr h 75)) / 1000))),
        (''p99'', Inr (fmt_f3 lib (real_of_int (sint (hdrValueAtQuantile hdr h 99)) / 1000))),
        (''p99999'', Inr (fmt_f3 lib (real_of_int (sint (hdrValueAtQuantile hdr h 99.999)) / 1000))),
        (''p100'', Inr (fmt_f3 lib (real_of_int (sint (hdrMax hdr h)) / 1000)))] \<and>
     (\<exists>lines. summarizeLatency lib hdr hp s acc indent =
          Inr (acc @ concat (map ((@) indent) lines)) \<and>
        length lines = 10 \<and>
        lines ! 1 =
          ''Max: '' @ fmt_f3 lib (real_of_int (sint (hdrMax hdr h)) / 1000) @
          ''ms, Min: '' @ fmt_f3 lib (real_of_int (sint (hdrMin hdr h)) / 1000) @
          ''ms, Mean: '' @ fmt_f3 lib (hdrMean hdr h / 1000) @
          ''ms, Stddev: '' @ fmt_f3 lib (hdrStdDev hdr h / 1000) @ ''\<newline>\<newline>'')"
proof (intro impI conjI)
  assume h: "deref hp (Latencies s) = Some h"
  then show "map (\<lambda>col. (fst col, snd col r s)) (drop 5 (csvColumns lib hdr hp)) =
       [(''mean'', Inr (fmt_f3 lib (hdrMean hdr h / 1000))),
        (''stdev'', Inr (fmt_f3 lib (hdrStdDev hdr h))),
        (''p0'', Inr (fmt_f3 lib (real_of_int (sint (hdrMin hdr h)) / 1000))),
        (''p25'', Inr (fmt_f3 lib (real_of_int (sint (hdrValueAtQuantile hdr h 25)) / 1000))),
        (''p50'', Inr (fmt_f3 lib (real_of_int (sint (hdrValueAtQuantile hdr h 50)) / 1000))),
        (''p75'', Inr (fmt_f3 lib (real_of_int (sint (hdrValueAtQuantile hdr h 75)) / 1000))),
        (''p99'', Inr (fmt_f3 lib (real_of_int (sint (hdrValueAtQuantile hdr h 99)) / 1000))),
        (''p99999'', Inr (fmt_f3 lib (real_of_int (sint (hdrValueAtQuantile hdr h 99.999)) / 1000))),
        (''p100'', Inr (fmt_f3 lib (real_of_int (sint (hdrMax hdr h)) / 1000)))]"
    by (simp add: csvColumns_def ofLatencies_def fmtFloat_def)
  from summarizeLatency_lines [OF h, of lib hdr acc indent]
  show "\<exists>lines. summarizeLatency lib hdr hp s acc indent =
          Inr (acc @ concat (map ((@) indent) lines)) \<and>
        length lines = 10 \<and>
        lines ! 1 =
          ''Max: '' @ fmt_f3 lib (real_of_int (sint (hdrMax hdr h)) / 1000) @
          ''ms, Min: '' @ fmt_f3 lib (real_of_int (sint (hdrMin hdr h)) / 1000) @
          ''ms, Mean: '' @ fmt_f3 lib (hdrMean hdr h / 1000) @
          ''ms, Stddev: '' @ fmt_f3 lib (hdrStdDev hdr h / 1000) @ ''\<newline>\<newline>''"
    by (intro exI [of _ "[fmt_d lib (Succeeded s) @ '' successful transactions, '' @
          fmt_d lib (Failed s) @ '' failed. (Total of '' @
          fmt_f3 lib (Rate s) @ '' per second)\<newline>'',
        ''Max: '' @ fmt_f3 lib (real_of_int (sint (hdrMax hdr h)) / 1000) @
          ''ms, Min: '' @ fmt_f3 lib (real_of_int (sint (hdrMin hdr h)) / 1000) @
          ''ms, Mean: '' @ fmt_f3 lib (hdrMean hdr h / 1000) @
          ''ms, Stddev: '' @ fmt_f3 lib (hdrStdDev hdr h / 1000) @
          ''\<newline>\<newline>'',
        ''Latency distribution:\<newline>'',
        ''  P00.000: '' @ fmt_f3 lib (real_of_int (sint (hdrMin hdr h)) / 1000) @ ''ms\<newline>'',
        ''  P25.000: '' @ fmt_f3 lib (real_of_int (sint (hdrValueAtQuantile hdr h 25)) / 1000) @ ''ms\<newline>'',
        ''  P50.000: '' @ fmt_f3 lib (real_of_int (sint (hdrValueAtQuantile hdr h 50)) / 1000) @ ''ms\<newline>'',
        ''  P75.000: '' @ fmt_f3 lib (real_of_int (sint (hdrValueAtQuantile hdr h 75)) / 1000) @ ''ms\<newline>'',
        ''  P95.000: '' @ fmt_f3 lib (real_of_int (sint (hdrValueAtQuantile hdr h 95)) / 1000) @ ''ms\<newline>'',
        ''  P99.000: '' @ fmt_f3 lib (real_of_int (sint (hdrValueAtQuantile hdr h 99)) / 1000) @ ''ms\<newline>'',
        ''  P99.999: '' @ fmt_f3 lib (real_of_int (sint (hdrValueAtQuantile hdr h 99.999)) / 1000) @ ''ms\<newline>'']"])
      simp
qed

theorem stdev_column_not_scaled_witness:
  "deref [[2000, 4000 :: int]]
     (Latencies \<lparr>ScriptName = ''tx'', Rate = 10, Failed = 0, Succeeded = 2, Latencies = Some 0\<rparr>) =
     Some [2000, 4000] \<and>
   map (\<lambda>col. (fst col, snd col (NewResult ''neo4j'' ''-w tx'')
          \<lparr>ScriptName = ''tx'', Rate = 10, Failed = 0, Succeeded = 2, Latencies = Some 0\<rparr>))
     (drop 5 (csvColumns (demoLib :: os_file lib) (listHdr\<lparr>hdrStdDev := \<lambda>h. 1500\<rparr>)
        [[2000, 4000]])) =
     [(''mean'', Inr ''3.000''), (''stdev'', Inr ''1500.000''), (''p0'', Inr ''2.000''),
      (''p25'', Inr ''4.000''), (''p50'', Inr ''4.000''), (''p75'', Inr ''4.000''),
      (''p99'', Inr ''4.000''), (''p99999'', Inr ''4.000''), (''p100'', Inr ''4.000'')] \<and>
   (\<exists>lines. summarizeLatency (demoLib :: os_file lib) (listHdr\<lparr>hdrStdDev := \<lambda>h. 1500\<rparr>)
        [[2000, 4000]]
        \<lparr>ScriptName = ''tx'', Rate = 10, Failed = 0, Succeeded = 2, Latencies = Some 0\<rparr>
        [] ''  '' = Inr (concat (map ((@) ''  '') lines)) \<and>
      lines ! 1 = ''Max: 4.000ms, Min: 2.000ms, Mean: 3.000ms, Stddev: 1.500\<newline>\<newline>'')"
proof -
  let ?lib = "demoLib :: os_file lib"
  let ?hdr = "listHdr\<lparr>hdrStdDev := \<lambda>h. 1500\<rparr>"
  let ?s = "\<lparr>ScriptName = ''tx'', Rate = 10, Failed = 0, Succeeded = 2, Latencies = Some 0\<rparr>"
  have d: "deref [[2000, 4000 :: int]] (Latencies ?s) = Some [2000, 4000]"
    by (simp add: deref_def)
  have f: "fmt_f3 ?lib 3 = ''3.000''" "fmt_f3 ?lib 1500 = ''1500.000''"
    "fmt_f3 ?lib 2 = ''2.000''" "fmt_f3 ?lib 4 = ''4.000''" "fmt_f3 ?lib (3 / 2) = ''1.500''"
    by (simp_all add: demoLib_def show_fixed_def show_nat.simps digit_def upt_rec)
  have v: "hdrMean ?hdr [2000, 4000] = 3000" "hdrStdDev ?hdr [2000, 4000] = 1500"
    "sint (hdrMin ?hdr [2000, 4000]) = 2000" "sint (hdrMax ?hdr [2000, 4000]) = 4000"
    "\<And>q. sint (hdrValueAtQuantile ?hdr [2000, 4000] q) = 4000"
    by (simp_all add: listHdr_def)
  note inst = stdev_column_not_scaled [where lib = ?lib and hdr = ?hdr and hp = "[[2000, 4000]]"
      and s = ?s and h = "[2000, 4000]" and r = "NewResult ''neo4j'' ''-w tx''" and acc = "[]"
      and indent = "''  ''", THEN mp, OF d]
  from inst [THEN conjunct1]
  have c1: "map (\<lambda>col. (fst col, snd col (NewResult ''neo4j'' ''-w tx'') ?s))
     (drop 5 (csvColumns ?lib ?hdr [[2000, 4000]])) =
     [(''mean'', Inr ''3.000''), (''stdev'', Inr ''1500.000''), (''p0'', Inr ''2.000''),
      (''p25'', Inr ''4.000''), (''p50'', Inr ''4.000''), (''p75'', Inr ''4.000''),
      (''p99'', Inr ''4.000''), (''p99999'', Inr ''4.000''), (''p100'', Inr ''4.000'')]"
    unfolding v by (simp add: f)
  from inst [THEN conjunct2]
  have c2: "\<exists>lines. summarizeLatency ?lib ?hdr [[2000, 4000]] ?s [] ''  '' =
        Inr (concat (map ((@) ''  '') lines)) \<and>
      lines ! 1 = ''Max: 4.000ms, Min: 2.000ms, Mean: 3.000ms, Stddev: 1.500\<newline>\<newline>''"
    unfolding v by (auto simp add: f)
  from d c1 c2 show ?thesis by (intro conjI)
qed

subsection \<open>The choice of the output\<close>

lemma InitOutput_unknown:
  assumes "name \<noteq> ''auto''" and "name \<noteq> ''interactive''" and "name \<noteq> ''csv''"
  shows "InitOutput name prometheusAddress p =
     Inr ((None, Some (''unknown output format: '' @ name @
            '', supported formats are 'auto', 'interactive' and 'csv'' @ [CHR 0x27])), p)"
  using assms by (simp add: InitOutput_def)

lemma InitOutput_known:
  assumes "name = ''auto'' \<or> name = ''interactive'' \<or> name = ''csv''"
    and "InitOutput name prometheusAddress p = Inr ((out, err), p')"
  shows "err = None \<and> out \<noteq> None"
  using assms
  by (auto simp add: InitOutput_def split: option.splits if_splits sum.splits)

lemma InitOutput_plain:
  assumes "name = ''auto'' \<and> stdoutMode p \<noteq> None \<or> name = ''interactive'' \<or> name = ''csv''"
  shows "\<exists>out. InitOutput name [] p = Inr ((Some out, None), p)"
  using assms
  by (auto simp add: InitOutput_def split: option.splits)

text \<open>
  C4. For a name other than \<open>auto\<close>, \<open>interactive\<close> and \<open>csv\<close>, \<open>InitOutput\<close> returns no
  \<open>Output\<close> and the error whose message is the name and the three supported ones, and
  leaves the process as it was: nothing is registered, nothing is served. For one of the
  three names, a call that returns returns an \<open>Output\<close> and no error; without a
  Prometheus address it returns (for \<open>auto\<close>, when \<open>Stat\<close> gives the mode of the standard
  output).
\<close>

theorem InitOutput_unknown_mode:
  "(name \<notin> {''auto'', ''interactive'', ''csv''} \<longrightarrow>
      InitOutput name prometheusAddress p =
        Inr ((None, Some (''unknown output format: '' @ name @
               '', supported formats are 'auto', 'interactive' and 'csv'' @ [CHR 0x27])), p)) \<and>
   (name \<in> {''auto'', ''interactive'', ''csv''} \<longrightarrow>
      (\<forall>out err p'. InitOutput name prometheusAddress p = Inr ((out, err), p') \<longrightarrow>
         err = None \<and> out \<noteq> None)) \<and>
   (name \<in> {''interactive'', ''csv''} \<or> name = ''auto'' \<and> stdoutMode p \<noteq> None \<longrightarrow>
      (\<exists>out. InitOutput name [] p = Inr ((Some out, None), p)))"
proof (intro conjI impI allI)
  assume "name \<notin> {''auto'', ''interactive'', ''csv''}"
  then have "name \<noteq> ''auto''" and "name \<noteq> ''interactive''" and "name \<noteq> ''csv''"
    by simp_all
  then show "InitOutput name prometheusAddress p =
        Inr ((None, Some (''unknown output format: '' @ name @
               '', supported formats are 'auto', 'interactive' and 'csv'' @ [CHR 0x27])), p)"
    by (rule InitOutput_unknown)
next
  fix out err p'
  assume "name \<in> {''auto'', ''interactive'', ''csv''}"
    and run: "InitOutput name prometheusAddress p = Inr ((out, err), p')"
  then have "name = ''auto'' \<or> name = ''interactive'' \<or> name = ''csv''"
    by simp
  from InitOutput_known [OF this run] show "err = None" and "out \<noteq> None"
    by simp_all
next
  assume "name \<in> {''interactive'', ''csv''} \<or> name = ''auto'' \<and> stdoutMode p \<noteq> None"
  then have "name = ''auto'' \<and> stdoutMode p \<noteq> None \<or> name = ''interactive'' \<or> name = ''csv''"
    by auto
  then show "\<exists>out. InitOutput name [] p = Inr ((Some out, None), p)"
    by (rule InitOutput_plain)
qed

theorem InitOutput_unknown_mode_witness:
  "''xml'' \<notin> {''auto'', ''interactive'', ''csv''} \<and>
   InitOutput ''xml'' ''localhost:9090''
     \<lparr>stdoutMode = Some 0, handlers = [], collectors = [], serving = []\<rparr> =
     Inr ((None, Some (''unknown output format: xml, supported formats are 'auto', 'interactive' and 'csv'' @ [CHR 0x27])),
          \<lparr>stdoutMode = Some 0, handlers = [], collectors = [], serving = []\<rparr>) \<and>
   ''auto'' \<in> {''auto'', ''interactive'', ''csv''} \<and>
   InitOutput ''auto'' ''localhost:9090''
     \<lparr>stdoutMode = Some 0, handlers = [], collectors = [], serving = []\<rparr> =
     Inr ((Some (ACombinedOutput
            [ACsvOutput \<lparr>csvErrStream = Stderr, csvOutStream = Stdout,
               csvLastProgressReport = \<lparr>Section = [], Step = [], Completeness = 0\<rparr>,
               csvLastProgressTime = 0\<rparr>,
             APrometheusOutput
               \<lparr>totalSucceededCounter = ''neobench_successful_transactions_total'',
                totalFailedCounter = ''neobench_failed_transactions_total''\<rparr>]), None),
          \<lparr>stdoutMode = Some 0, handlers = [''/metrics''],
           collectors = [''neobench_successful_transactions_total'',
                         ''neobench_failed_transactions_total''],
           serving = [''localhost:9090'']\<rparr>) \<and>
   (\<exists>out. InitOutput ''interactive'' []
      \<lparr>stdoutMode = None, handlers = [], collectors = [], serving = []\<rparr> =
      Inr ((Some out, None), \<lparr>stdoutMode = None, handlers = [], collectors = [], serving = []\<rparr>))"
proof -
  let ?p = "\<lparr>stdoutMode = Some 0, handlers = [], collectors = [], serving = []\<rparr>"
  let ?q = "\<lparr>stdoutMode = None, handlers = [], collectors = [], serving = []\<rparr>"
  have n: "''xml'' \<notin> {''auto'', ''interactive'', ''csv''}"
    by simp
  have a: "''auto'' \<in> {''auto'', ''interactive'', ''csv''}"
    by simp
  from InitOutput_unknown_mode [where name = "''xml''" and prometheusAddress = "''localhost:9090''"
      and p = ?p, THEN conjunct1, THEN mp, OF n]
  have c1: "InitOutput ''xml'' ''localhost:9090'' ?p =
     Inr ((None, Some (''unknown output format: xml, supported formats are 'auto', 'interactive' and 'csv'' @ [CHR 0x27])), ?p)"
    by simp
  have c2: "InitOutput ''auto'' ''localhost:9090'' ?p =
     Inr ((Some (ACombinedOutput
            [ACsvOutput \<lparr>csvErrStream = Stderr, csvOutStream = Stdout,
               csvLastProgressReport = \<lparr>Section = [], Step = [], Completeness = 0\<rparr>,
               csvLastProgressTime = 0\<rparr>,
             APrometheusOutput
               \<lparr>totalSucceededCounter = ''neobench_successful_transactions_total'',
                totalFailedCounter = ''neobench_failed_transactions_total''\<rparr>]), None),
          \<lparr>stdoutMode = Some 0, handlers = [''/metrics''],
           collectors = [''neobench_successful_transactions_total'',
                         ''neobench_failed_transactions_total''],
           serving = [''localhost:9090'']\<rparr>)"
    using InitOutput_unknown_mode [where name = "''auto''"
        and prometheusAddress = "''localhost:9090''" and p = ?p, THEN conjunct2, THEN conjunct1]
    by (simp add: InitOutput_def InitPrometheus_def NewPrometheusOutput_def NewCounter_def
        ModeCharDevice_def)
  have i: "''interactive'' \<in> {''interactive'', ''csv''} \<or>
      ''interactive'' = ''auto'' \<and> stdoutMode ?q \<noteq> None"
    by simp
  note c3 = InitOutput_unknown_mode [where name = "''interactive''" and p = ?q,
      THEN conjunct2, THEN conjunct2, THEN mp, OF i]
  from n c1 a c2 c3 show ?thesis by (intro conjI)
qed

subsection \<open>The delegates of a CombinedOutput\<close>

lemma forDelegates_received:
  "forDelegates (received c) ds calls = Inr (ds, calls @ map (\<lambda>d. (d, c)) ds)"
  by (induction ds arbitrary: calls) (simp_all add: received_def)

lemma forCombined_received:
  "forCombined (received c) (this, calls) =
     Inr (this, calls @ map (\<lambda>d. (d, c)) (delegates this))"
  by (simp add: forCombined_def forDelegates_received)

lemma CombinedOutput_forwards:
  "CombinedOutput_BenchmarkStart recorder databaseName url scenario (this, calls) =
     Inr (this, calls @ map (\<lambda>d. (d, CallBenchmarkStart databaseName url scenario)) (delegates this))"
  "CombinedOutput_ReportInitProgress recorder report (this, calls) =
     Inr (this, calls @ map (\<lambda>d. (d, CallReportInitProgress report)) (delegates this))"
  "CombinedOutput_ReportWorkloadProgress recorder completeness checkpoint (this, calls) =
     Inr (this, calls @
       map (\<lambda>d. (d, CallReportWorkloadProgress completeness checkpoint)) (delegates this))"
  "CombinedOutput_ReportThroughput recorder result (this, calls) =
     Inr (this, calls @ map (\<lambda>d. (d, CallReportThroughput result)) (delegates this))"
  "CombinedOutput_ReportLatency recorder result (this, calls) =
     Inr (this, calls @ map (\<lambda>d. (d, CallReportLatency result)) (delegates this))"
  by (simp_all add: CombinedOutput_BenchmarkStart_def CombinedOutput_ReportInitProgress_def
      CombinedOutput_ReportWorkloadProgress_def CombinedOutput_ReportThroughput_def
      CombinedOutput_ReportLatency_def recorder_def forCombined_received)

lemma CombinedOutput_Errorf_forwards:
  "CombinedOutput_Errorf recorder format a (this, calls) =
     Inr (this, calls @ map (\<lambda>d. (d, CallErrorf format [VSlice a])) (delegates this))"
  by (simp add: CombinedOutput_Errorf_def recorder_def forCombined_received)

text \<open>
  C3. \<open>CombinedOutput.Errorf\<close> does not pass its arguments on as it received them. Called
  with the format \<open>cannot connect to %s\<close> and the one argument \<open>bolt://localhost:7687\<close>,
  each delegate, in the order of the list, receives the format and one argument that is
  the slice of the arguments: another call than the one made. \<open>BenchmarkStart\<close>, like the
  other four operations (\<open>CombinedOutput_forwards\<close>), reaches each delegate in order with
  the arguments of the call.
\<close>

theorem CombinedOutput_Errorf_wraps_arguments:
  "CombinedOutput_Errorf recorder ''cannot connect to %s'' [VString ''bolt://localhost:7687'']
     (\<lparr>delegates = [''console'', ''metrics'']\<rparr>, []) =
   Inr (\<lparr>delegates = [''console'', ''metrics'']\<rparr>,
        [(''console'', CallErrorf ''cannot connect to %s'' [VSlice [VString ''bolt://localhost:7687'']]),
         (''metrics'', CallErrorf ''cannot connect to %s'' [VSlice [VString ''bolt://localhost:7687'']])]) \<and>
   CallErrorf ''cannot connect to %s'' [VSlice [VString ''bolt://localhost:7687'']] \<noteq>
   CallErrorf ''cannot connect to %s'' [VString ''bolt://localhost:7687''] \<and>
   CombinedOutput_BenchmarkStart recorder ''neo4j'' ''bolt://localhost:7687'' ''-w tx''
     (\<lparr>delegates = [''console'', ''metrics'']\<rparr>, []) =
   Inr (\<lparr>delegates = [''console'', ''metrics'']\<rparr>,
        [(''console'', CallBenchmarkStart ''neo4j'' ''bolt://localhost:7687'' ''-w tx''),
         (''metrics'', CallBenchmarkStart ''neo4j'' ''bolt://localhost:7687'' ''-w tx'')])"
  by (simp add: CombinedOutput_Errorf_forwards CombinedOutput_forwards)

end
